theory Spec2Isabelle
  imports Complex_Main "HOL-Library.AList"
begin

section \<open>Values of the program\<close>

text \<open>
  The plugin (src/main.py, class BiliLiveNoticePlugin) reads JSON from the status
  endpoint and keeps parts of it unvalidated in its own dictionaries, so the values
  it handles are those of Python's json module. A float is idealised as a real
  number. A dict is the list of its items, in insertion order, with distinct keys.
\<close>

datatype json =
    JNull
  | JBool bool
  | JInt int
  | JFloat real
  | JStr string
  | JArr "json list"
  | JObj "(string \<times> json) list"

type_synonym obj = "(string \<times> json) list"

text \<open>Truth value of a value, as \<open>if v:\<close>, \<open>not v\<close> and \<open>a or b\<close> test it.\<close>

fun truthy :: "json \<Rightarrow> bool" where
  "truthy JNull = False"
| "truthy (JBool b) = b"
| "truthy (JInt i) = (i \<noteq> 0)"
| "truthy (JFloat r) = (r \<noteq> 0)"
| "truthy (JStr s) = (s \<noteq> [])"
| "truthy (JArr xs) = (xs \<noteq> [])"
| "truthy (JObj kvs) = (kvs \<noteq> [])"

text \<open>
  \<open>v == n\<close> for an int literal \<open>n\<close>: in Python \<open>True == 1\<close> and \<open>1.0 == 1\<close> hold,
  and a value of any other type is different from every int.
\<close>

fun py_eq_int :: "json \<Rightarrow> int \<Rightarrow> bool" where
  "py_eq_int (JInt i) n = (i = n)"
| "py_eq_int (JBool b) n = ((if b then 1 else 0) = n)"
| "py_eq_int (JFloat r) n = (r = of_int n)"
| "py_eq_int JNull n = False"
| "py_eq_int (JStr s) n = False"
| "py_eq_int (JArr xs) n = False"
| "py_eq_int (JObj kvs) n = False"

text \<open>\<open>d.get(k)\<close> (None when the key is absent) and \<open>d.get(k, default)\<close>.\<close>

definition dict_get :: "obj \<Rightarrow> string \<Rightarrow> json" where
  "dict_get d k = (case map_of d k of None \<Rightarrow> JNull | Some v \<Rightarrow> v)"

definition dict_get_default :: "obj \<Rightarrow> string \<Rightarrow> json \<Rightarrow> json" where
  "dict_get_default d k dflt = (case map_of d k of None \<Rightarrow> dflt | Some v \<Rightarrow> v)"

text \<open>\<open>a or b\<close>: the first operand when it is true, the second otherwise.\<close>

definition py_or :: "json \<Rightarrow> json \<Rightarrow> json" where
  "py_or a b = (if truthy a then a else b)"

text \<open>\<open>str(i)\<close> for an int: its decimal digits, with a minus sign when negative.\<close>

fun digits_of :: "nat \<Rightarrow> string" where
  "digits_of n =
     (if n < 10 then [''0123456789'' ! n]
      else digits_of (n div 10) @ [''0123456789'' ! (n mod 10)])"

declare digits_of.simps [simp del]

definition str_int :: "int \<Rightarrow> string" where
  "str_int i = (if i < 0 then CHR ''-'' # digits_of (nat (- i)) else digits_of (nat i))"

text \<open>
  Two builtins are used by the fetcher and not spelled out here; they are taken as
  parameters, and every theorem holds for each choice of them:
  \<^item> \<open>int_ok u\<close>: \<open>int(u)\<close> returns for the string \<open>u\<close> (it raises ValueError otherwise);
  \<^item> \<open>repr_of v\<close>: the text \<open>str(v)\<close> gives for a float, a list or a dict.
\<close>

record builtins =
  int_ok :: "string \<Rightarrow> bool"
  repr_of :: "json \<Rightarrow> string"

definition py_str :: "builtins \<Rightarrow> json \<Rightarrow> string" where
  "py_str b v =
     (case v of
        JStr s \<Rightarrow> s
      | JInt i \<Rightarrow> str_int i
      | JBool x \<Rightarrow> (if x then ''True'' else ''False'')
      | JNull \<Rightarrow> ''None''
      | _ \<Rightarrow> repr_of b v)"

section \<open>Batch Status Fetcher\<close>

text \<open>
  A status is the four-key dict the fetcher builds; the monitor loop also uses a
  one-key dict as a default, so a status is an \<open>obj\<close> and is read with \<open>dict_get\<close>.
\<close>

type_synonym status = obj

definition zero_status :: status where
  "zero_status =
     [(''live_status'', JInt 0), (''room_id'', JInt 0), (''title'', JStr ''''), (''uname'', JStr '''')]"

text \<open>The dict literal of lines 163-168 and 178-183, built from an upstream record.\<close>

definition status_of :: "obj \<Rightarrow> status" where
  "status_of d =
     [(''live_status'', dict_get_default d ''live_status'' (JInt 0)),
      (''room_id'', dict_get_default d ''room_id'' (JInt 0)),
      (''title'', dict_get_default d ''title'' (JStr '''')),
      (''uname'', dict_get_default d ''uname'' (JStr ''''))]"

text \<open>
  What the network gave: \<open>Raises\<close> when \<open>ensure_session\<close> or \<open>session.post\<close> raised an
  Exception (transport error, timeout); otherwise the HTTP status and the value of
  \<open>response.json()\<close>, \<open>None\<close> when that call raises (the payload does not parse).
\<close>

datatype reply = Raises | Response int "json option"

text \<open>
  Lines 159-168, the loop over \<open>uids\<close> when \<open>data\<close> is a dict. A true \<open>user_data\<close>
  that is not a dict has no \<open>get\<close>: the AttributeError leaves the loop with the
  entries written so far.
\<close>

fun from_dict :: "obj \<Rightarrow> string list \<Rightarrow> (string \<rightharpoonup> status) \<Rightarrow> (string \<rightharpoonup> status)" where
  "from_dict data_obj [] result_map = result_map"
| "from_dict data_obj (u # us) result_map =
     (let user_data = dict_get data_obj u in
      if truthy user_data then
        (case user_data of
           JObj d \<Rightarrow> from_dict data_obj us (result_map(u \<mapsto> status_of d))
         | _ \<Rightarrow> result_map)
      else from_dict data_obj us result_map)"

text \<open>
  Lines 170-174, the index \<open>by_uid\<close> of a list of records; \<open>None\<close> when an entry is
  not a dict (\<open>entry.get\<close> raises), which ends the try block with nothing written.
\<close>

fun index_by_uid :: "builtins \<Rightarrow> json list \<Rightarrow> (string \<rightharpoonup> obj) \<Rightarrow> (string \<rightharpoonup> obj) option" where
  "index_by_uid b [] by_uid = Some by_uid"
| "index_by_uid b (entry # es) by_uid =
     (case entry of
        JObj e \<Rightarrow>
          (let uid_val = py_str b (py_or (dict_get e ''uid'') (py_or (dict_get e ''mid'') (JStr '''')))
           in index_by_uid b es (if uid_val \<noteq> [] then by_uid(uid_val \<mapsto> e) else by_uid))
      | _ \<Rightarrow> None)"

text \<open>Lines 175-183, the loop over \<open>uids\<close> with the index.\<close>

fun from_list :: "(string \<rightharpoonup> obj) \<Rightarrow> string list \<Rightarrow> (string \<rightharpoonup> status) \<Rightarrow> (string \<rightharpoonup> status)" where
  "from_list by_uid [] result_map = result_map"
| "from_list by_uid (u # us) result_map =
     (case by_uid u of
        Some e \<Rightarrow>
          if e \<noteq> [] then from_list by_uid us (result_map(u \<mapsto> status_of e))
          else from_list by_uid us result_map
      | None \<Rightarrow> from_list by_uid us result_map)"

text \<open>
  The try block of lines 143-192 with its \<open>except Exception\<close>: the rate-limited flag
  and \<open>result_map\<close> as they stand when the block is left, by its end or by an
  exception. The flag is written in two places only: False at line 156, True at line
  187.
\<close>

definition fetch :: "builtins \<Rightarrow> string list \<Rightarrow> reply \<Rightarrow> bool \<Rightarrow> bool \<times> (string \<rightharpoonup> status)" where
  "fetch b uids r last_rate_limited =
     (if \<not> list_all (int_ok b) uids then (last_rate_limited, Map.empty)
      else
        (case r of
           Raises \<Rightarrow> (last_rate_limited, Map.empty)
         | Response st payload \<Rightarrow>
             if st = 200 then
               (case payload of
                  None \<Rightarrow> (last_rate_limited, Map.empty)
                | Some (JObj body) \<Rightarrow>
                    if py_eq_int (dict_get body ''code'') 0 then
                      (case dict_get_default body ''data'' (JObj []) of
                         JObj data_obj \<Rightarrow> (False, from_dict data_obj uids Map.empty)
                       | JArr data_obj \<Rightarrow>
                           (case index_by_uid b data_obj Map.empty of
                              None \<Rightarrow> (False, Map.empty)
                            | Some by_uid \<Rightarrow> (False, from_list by_uid uids Map.empty))
                       | _ \<Rightarrow> (False, Map.empty))
                    else (last_rate_limited, Map.empty)
                | Some _ \<Rightarrow> (last_rate_limited, Map.empty))
             else if st = 429 then (True, Map.empty)
             else (last_rate_limited, Map.empty)))"

text \<open>Lines 195-197, the \<open>finally\<close> block.\<close>

fun fill_defaults :: "string list \<Rightarrow> (string \<rightharpoonup> status) \<Rightarrow> (string \<rightharpoonup> status)" where
  "fill_defaults [] result_map = result_map"
| "fill_defaults (u # us) result_map =
     fill_defaults us (if result_map u = None then result_map(u \<mapsto> zero_status) else result_map)"

text \<open>
  \<open>get_live_status_batch\<close>: the new value of \<open>_last_rate_limited\<close> and the returned
  dict. asyncio.CancelledError is not an Exception and passes through the function;
  it is modelled in the monitor loop, where the source handles it.
\<close>

definition get_live_status_batch ::
    "builtins \<Rightarrow> string list \<Rightarrow> reply \<Rightarrow> bool \<Rightarrow> bool \<times> (string \<rightharpoonup> status)" where
  "get_live_status_batch b uids r last_rate_limited =
     (case fetch b uids r last_rate_limited of
        (fl, result_map) \<Rightarrow> (fl, fill_defaults uids result_map))"

text \<open>
  \<open>get_live_status\<close>, lines 121-138: the batch call on the one-element list, the test
  \<open>uid in batch\<close>, and the fallback of line 138.
\<close>

definition get_live_status :: "builtins \<Rightarrow> string \<Rightarrow> reply \<Rightarrow> bool \<Rightarrow> bool \<times> status" where
  "get_live_status b uid r last_rate_limited =
     (case get_live_status_batch b [uid] r last_rate_limited of
        (fl, batch) \<Rightarrow>
          (case batch uid of
             Some s \<Rightarrow> (fl, s)
           | None \<Rightarrow> (fl, zero_status)))"

section \<open>State of the plugin\<close>

text \<open>
  One entry of \<open>monitored_uids\<close>, as \<open>add_monitor\<close> writes it (lines 339-345).
  \<open>unified_msg_origin\<close> is \<open>None\<close> when the key is absent or null, as in an entry
  read from an older configuration file. Times are those of the event loop's clock.
\<close>

record entry =
  uname :: json
  room_id :: json
  added_by :: string
  added_time :: real
  unified_msg_origin :: "string option"

text \<open>
  The attributes set in \<open>__init__\<close> (lines 14-24) that the monitor loop and the
  commands read and write. \<open>monitored_uids\<close> keeps the insertion order of the dict,
  which is the order the loop iterates in.
\<close>

record plugin =
  check_interval :: int
  max_monitors :: int
  enable_notifications :: bool
  enable_end_notifications :: bool
  monitored_uids :: "(string \<times> entry) list"
  live_status_cache :: "string \<rightharpoonup> json"
  uid_error_counts :: "string \<rightharpoonup> int"
  uid_skip_until :: "string \<rightharpoonup> real"
  current_interval :: int
  last_rate_limited :: bool

text \<open>
  What the program does to the outside, in order: the calls of the two dispatchers,
  the calls of \<open>context.send_message\<close>, the log lines of the dispatchers, and the
  sleeps of the loop. The message texts are f-strings around fixed literals; a
  message is kept as the values it is built from.
\<close>

datatype kind = Live | End

datatype message =
    LiveMessage json json json
  | EndMessage json

datatype level = INFO | WARNING | ERROR

datatype action =
    Dispatch kind string
  | SendMessage string message
  | Log level
  | Sleep int

text \<open>
  An await either returns or raises. \<open>except Exception\<close> catches \<open>Exception\<close> and
  lets \<open>CancelledError\<close> (a BaseException) through.
\<close>

datatype raised = Exception | CancelledError

section \<open>Notification Dispatcher\<close>

text \<open>Stand-ins for the two non-ASCII default literals of lines 278-279 and 302.\<close>

definition unknown_up :: json where
  "unknown_up = JStr ''unknown UP''"

definition no_title :: json where
  "no_title = JStr ''no title''"

text \<open>\<open>if unified_msg_origin:\<close> holds for a non-empty string.\<close>

fun origin_set :: "string option \<Rightarrow> bool" where
  "origin_set None = False"
| "origin_set (Some target) = (target \<noteq> [])"

text \<open>
  \<open>send_live_notification\<close>, lines 272-296. \<open>sent\<close> is what awaiting
  \<open>context.send_message\<close> does if it is reached. The result is what the function
  raises (\<open>None\<close>: it returns) and its actions.
\<close>

definition send_live_notification ::
    "plugin \<Rightarrow> raised option \<Rightarrow> string \<Rightarrow> status \<Rightarrow> entry \<Rightarrow> raised option \<times> action list" where
  "send_live_notification p sent uid status_info monitor_info =
     (if \<not> enable_notifications p then (None, [Log INFO])
      else
        (let message =
               LiveMessage (dict_get_default status_info ''uname'' unknown_up)
                 (dict_get_default status_info ''title'' no_title)
                 (dict_get_default status_info ''room_id'' (JInt 0))
         in if origin_set (unified_msg_origin monitor_info) then
              (case sent of
                 None \<Rightarrow> (None, [SendMessage (the (unified_msg_origin monitor_info)) message, Log INFO])
               | Some Exception \<Rightarrow>
                   (None, [SendMessage (the (unified_msg_origin monitor_info)) message, Log ERROR])
               | Some CancelledError \<Rightarrow>
                   (Some CancelledError, [SendMessage (the (unified_msg_origin monitor_info)) message]))
            else (None, [Log WARNING])))"

text \<open>\<open>send_end_notification\<close>, lines 298-310.\<close>

definition send_end_notification ::
    "plugin \<Rightarrow> raised option \<Rightarrow> string \<Rightarrow> status \<Rightarrow> entry \<Rightarrow> raised option \<times> action list" where
  "send_end_notification p sent uid status_info monitor_info =
     (if \<not> enable_notifications p \<or> \<not> enable_end_notifications p then (None, [])
      else
        (let message = EndMessage (dict_get_default status_info ''uname'' unknown_up)
         in if origin_set (unified_msg_origin monitor_info) then
              (case sent of
                 None \<Rightarrow> (None, [SendMessage (the (unified_msg_origin monitor_info)) message, Log INFO])
               | Some Exception \<Rightarrow>
                   (None, [SendMessage (the (unified_msg_origin monitor_info)) message, Log ERROR])
               | Some CancelledError \<Rightarrow>
                   (Some CancelledError, [SendMessage (the (unified_msg_origin monitor_info)) message]))
            else (None, [])))"

section \<open>Poll loop\<close>

text \<open>
  What one pass of the \<open>while True\<close> loop meets: the clock, the outcome of the fetch
  (\<open>None\<close>: CancelledError while it is awaited), the outcome of \<open>send_message\<close> for
  each identifier, whether the sleep of the pass is cancelled, and a fault. On
  well-typed state the try block raises nothing by itself; \<open>fault = Some k\<close> stands
  for an Exception from elsewhere (ill-typed data read from the configuration file,
  the event loop) raised when the for loop reaches its item number \<open>k\<close>.

  \<open>lookups\<close> are the status lookups of commands (\<open>get_live_status\<close> at lines 333,
  396 and 421) that complete between the fetch of the pass and its interval update
  at line 251, in order, each with its identifier and its reply: the loop awaits its
  sleep at line 250 meanwhile, and every lookup writes \<open>_last_rate_limited\<close> as the
  fetch does. A lookup that completes earlier belongs to the state the pass starts
  from.
\<close>

record cycle_input =
  now :: real
  fetched :: "reply option"
  deliver :: "string \<Rightarrow> raised option"
  sleep_cancelled :: bool
  fault :: "nat option"
  lookups :: "(string \<times> reply) list"

text \<open>Line 221: the fetched status, or the default \<open>{"live_status": 0}\<close>.\<close>

definition current_status_of :: "(string \<rightharpoonup> status) \<Rightarrow> string \<Rightarrow> status" where
  "current_status_of status_map uid =
     (case status_map uid of None \<Rightarrow> [(''live_status'', JInt 0)] | Some s \<Rightarrow> s)"

text \<open>Line 222.\<close>

definition previous_status_of :: "plugin \<Rightarrow> string \<Rightarrow> json" where
  "previous_status_of p uid = (case live_status_cache p uid of None \<Rightarrow> JInt 0 | Some v \<Rightarrow> v)"

text \<open>Line 236.\<close>

definition is_empty :: "status \<Rightarrow> bool" where
  "is_empty current_status =
     (\<not> truthy (dict_get current_status ''uname'') \<and>
      py_eq_int (dict_get_default current_status ''room_id'' (JInt 0)) 0)"

text \<open>Lines 232-243: the cache update and the backoff bookkeeping of one identifier.\<close>

definition record_status :: "real \<Rightarrow> string \<Rightarrow> status \<Rightarrow> plugin \<Rightarrow> plugin" where
  "record_status t uid current_status p =
     (let p1 = p\<lparr>live_status_cache :=
                  (live_status_cache p)(uid \<mapsto> dict_get_default current_status ''live_status'' (JInt 0))\<rparr>
      in if is_empty current_status then
           (let cnt = (case uid_error_counts p1 uid of None \<Rightarrow> 0 | Some c \<Rightarrow> c) + 1
            in p1\<lparr>uid_error_counts := (uid_error_counts p1)(uid \<mapsto> cnt),
                  uid_skip_until := (uid_skip_until p1)(uid \<mapsto> t + of_int (min 300 (30 * cnt)))\<rparr>)
         else p1\<lparr>uid_error_counts := (uid_error_counts p1)(uid := None),
                 uid_skip_until := (uid_skip_until p1)(uid := None)\<rparr>)"

text \<open>
  Lines 221-243, the body of the for loop for one item. A CancelledError out of a
  dispatcher leaves the body before the cache is written.
\<close>

definition process_uid ::
    "cycle_input \<Rightarrow> (string \<rightharpoonup> status) \<Rightarrow> string \<Rightarrow> entry \<Rightarrow> plugin \<Rightarrow>
     raised option \<times> action list \<times> plugin" where
  "process_uid i status_map uid info p =
     (let current_status = current_status_of status_map uid;
          previous_status = previous_status_of p uid;
          (r1, tr1) =
            (if py_eq_int (dict_get current_status ''live_status'') 1 \<and> \<not> py_eq_int previous_status 1
             then (case send_live_notification p (deliver i uid) uid current_status info of
                     (r, tr) \<Rightarrow> (r, Dispatch Live uid # tr))
             else (None, []))
      in case r1 of
           Some e \<Rightarrow> (Some e, tr1, p)
         | None \<Rightarrow>
             (let (r2, tr2) =
                    (if py_eq_int previous_status 1 \<and> \<not> py_eq_int (dict_get current_status ''live_status'') 1
                     then (case send_end_notification p (deliver i uid) uid current_status info of
                             (r, tr) \<Rightarrow> (r, Dispatch End uid # tr))
                     else (None, []))
              in case r2 of
                   Some e \<Rightarrow> (Some e, tr1 @ tr2, p)
                 | None \<Rightarrow> (None, tr1 @ tr2, record_status (now i) uid current_status p)))"

text \<open>Lines 220-243, the for loop; \<open>k\<close> is the number of the next item.\<close>

fun process_items ::
    "cycle_input \<Rightarrow> (string \<rightharpoonup> status) \<Rightarrow> nat \<Rightarrow> (string \<times> entry) list \<Rightarrow> plugin \<Rightarrow>
     raised option \<times> action list \<times> plugin" where
  "process_items i status_map k [] p = (None, [], p)"
| "process_items i status_map k ((uid, info) # rest) p =
     (if fault i = Some k then (Some Exception, [], p)
      else
        (case process_uid i status_map uid info p of
           (Some e, tr, p') \<Rightarrow> (Some e, tr, p')
         | (None, tr, p') \<Rightarrow>
             (case process_items i status_map (Suc k) rest p' of
                (r, tr', p'') \<Rightarrow> (r, tr @ tr', p''))))"

text \<open>Line 217, the identifiers whose skip deadline has passed.\<close>

definition eligible_uids :: "real \<Rightarrow> plugin \<Rightarrow> (string \<times> entry) list \<Rightarrow> string list" where
  "eligible_uids t p monitored_copy =
     filter (\<lambda>uid. (case uid_skip_until p uid of None \<Rightarrow> 0 | Some d \<Rightarrow> d) \<le> t) (map fst monitored_copy)"

text \<open>
  Lines 213-243, the try block up to the end of the for loop. The pass works on its
  copy of \<open>monitored_uids\<close>. Of what commands do while the loop awaits, the writes
  of the rate-limited flag by their lookups are kept (\<open>lookups\<close>, applied in
  \<open>monitor_iteration\<close>); their writes of the registry, the cache and the two
  notification flags are not interleaved.
\<close>

definition cycle_body :: "builtins \<Rightarrow> cycle_input \<Rightarrow> plugin \<Rightarrow> raised option \<times> action list \<times> plugin" where
  "cycle_body b i p =
     (let monitored_copy = monitored_uids p;
          uids = eligible_uids (now i) p monitored_copy
      in case fetched i of
           None \<Rightarrow> (Some CancelledError, [], p)
         | Some r \<Rightarrow>
             (case get_live_status_batch b uids r (last_rate_limited p) of
                (fl, status_map) \<Rightarrow>
                  process_items i status_map 0 monitored_copy (p\<lparr>last_rate_limited := fl\<rparr>)))"

text \<open>
  \<open>int(self.current_interval * 0.75)\<close>: the interval is an int, the product is the
  float \<open>3 * cur / 4\<close> (exact below \<open>2^51\<close>), and \<open>int\<close> truncates towards zero.
\<close>

definition three_quarters :: "int \<Rightarrow> int" where
  "three_quarters cur = (if 0 \<le> cur then (3 * cur) div 4 else - ((3 * (- cur)) div 4))"

text \<open>Lines 251-255, the interval update.\<close>

definition adjust_interval :: "int \<Rightarrow> bool \<Rightarrow> int \<Rightarrow> int" where
  "adjust_interval base rate_limited cur =
     (if rate_limited then min 300 (max base (cur * 2))
      else max base (three_quarters cur))"

text \<open>
  The flag after the lookups of commands, from its value before them: each is a call
  of \<open>get_live_status\<close>.
\<close>

definition command_lookups :: "builtins \<Rightarrow> (string \<times> reply) list \<Rightarrow> bool \<Rightarrow> bool" where
  "command_lookups b ls flag =
     foldl (\<lambda>fl (uid, r). fst (get_live_status b uid r fl)) flag ls"

text \<open>
  Lines 205-270, one pass of the loop on the plugin and the local
  \<open>consecutive_errors\<close>. \<open>None\<close>: the loop is left, by the \<open>break\<close> of line 259 or by a
  CancelledError out of the sleep in the handler. Line 251 reads the flag after the
  sleep of line 250, so after the lookups of the pass. A pass that does not reach
  line 251 reads no flag; lookups made meanwhile belong to the state the next pass
  starts from.
\<close>

definition monitor_iteration ::
    "builtins \<Rightarrow> cycle_input \<Rightarrow> plugin \<times> int \<Rightarrow> action list \<times> (plugin \<times> int) option" where
  "monitor_iteration b i st =
     (case st of (p, consecutive_errors) \<Rightarrow>
        if monitored_uids p = [] then
          ([Sleep (check_interval p)],
           if sleep_cancelled i then None else Some (p, consecutive_errors))
        else
          (case cycle_body b i p of
             (Some CancelledError, tr, p') \<Rightarrow> (tr, None)
           | (Some Exception, tr, p') \<Rightarrow>
               (let errors = consecutive_errors + 1;
                    wait_time = (if errors \<ge> 5 then min 300 (60 * errors) else current_interval p')
                in (tr @ [Sleep wait_time],
                    if sleep_cancelled i then None else Some (p', errors)))
           | (None, tr, p') \<Rightarrow>
               (tr @ [Sleep (current_interval p')],
                if sleep_cancelled i then None
                else
                  (let p'' = p'\<lparr>last_rate_limited :=
                                  command_lookups b (lookups i) (last_rate_limited p')\<rparr>
                   in Some (p''\<lparr>current_interval :=
                                   adjust_interval (check_interval p'') (last_rate_limited p'')
                                     (current_interval p'')\<rparr>,
                            0)))))"

text \<open>
  \<open>monitor_live_status\<close>: the loop run over the inputs of its first passes, from a
  state of the plugin and a value of \<open>consecutive_errors\<close> (0 at line 202). The
  result is \<open>Some\<close> while the loop is still running after them.
\<close>

fun monitor_live_status ::
    "builtins \<Rightarrow> cycle_input list \<Rightarrow> plugin \<times> int \<Rightarrow> action list \<times> (plugin \<times> int) option" where
  "monitor_live_status b [] st = ([], Some st)"
| "monitor_live_status b (i # rest) st =
     (case monitor_iteration b i st of
        (tr, None) \<Rightarrow> (tr, None)
      | (tr, Some st') \<Rightarrow>
          (case monitor_live_status b rest st' of (tr', res) \<Rightarrow> (tr @ tr', res)))"

section \<open>Monitor Registry\<close>

text \<open>
  The command event: its text, the name \<open>get_sender_name()\<close> gives and its
  \<open>unified_msg_origin\<close>.
\<close>

record event =
  message_str :: string
  sender_name :: string
  event_origin :: string

text \<open>
  \<open>message_str.strip().split()\<close> and \<open>uid.isdigit()\<close> on ASCII text: the white space
  characters are the space and the codes 9-13 and 28-31.
\<close>

definition is_space :: "char \<Rightarrow> bool" where
  "is_space c =
     (let n = (of_char c :: nat) in c = CHR '' '' \<or> (9 \<le> n \<and> n \<le> 13) \<or> (28 \<le> n \<and> n \<le> 31))"

fun split_acc :: "string \<Rightarrow> string \<Rightarrow> string list" where
  "split_acc cur [] = (if cur = [] then [] else [cur])"
| "split_acc cur (c # cs) =
     (if is_space c then (if cur = [] then split_acc [] cs else cur # split_acc [] cs)
      else split_acc (cur @ [c]) cs)"

definition py_split :: "string \<Rightarrow> string list" where
  "py_split s = split_acc [] s"

definition isdigit :: "string \<Rightarrow> bool" where
  "isdigit s = (s \<noteq> [] \<and> list_all (\<lambda>c. c \<in> set ''0123456789'') s)"

text \<open>The results \<open>add_monitor\<close> yields, one per \<open>plain_result\<close> of lines 319-356.\<close>

datatype add_result = Usage | NotDigits | LimitReached | NotFound | Added | Failed

text \<open>
  \<open>add_monitor\<close>, lines 312-356, at clock time \<open>t\<close> with the reply \<open>r\<close> to its status
  lookup. \<open>save_config\<close> writes the file and changes no attribute. The subscript of
  line 346 raises KeyError on a status without the key, after line 339 has written
  the entry.
\<close>

definition add_monitor :: "builtins \<Rightarrow> event \<Rightarrow> real \<Rightarrow> reply \<Rightarrow> plugin \<Rightarrow> add_result \<times> plugin" where
  "add_monitor b ev t r p =
     (let args = py_split (message_str ev) in
      if length args < 2 then (Usage, p)
      else
        (let uid = args ! 1 in
         if \<not> isdigit uid then (NotDigits, p)
         else if int (length (monitored_uids p)) \<ge> max_monitors p then (LimitReached, p)
         else
           (case get_live_status b uid r (last_rate_limited p) of
              (fl, status_info) \<Rightarrow>
                (let p1 = p\<lparr>last_rate_limited := fl\<rparr> in
                 if \<not> truthy (dict_get status_info ''uname'') then (NotFound, p1)
                 else
                   (let p2 = p1\<lparr>monitored_uids :=
                                 AList.update uid
                                   \<lparr>uname = dict_get_default status_info ''uname'' (JStr ''''),
                                    room_id = dict_get_default status_info ''room_id'' (JInt 0),
                                    added_by = sender_name ev,
                                    added_time = t,
                                    unified_msg_origin = Some (event_origin ev)\<rparr>
                                   (monitored_uids p1)\<rparr>
                    in case map_of status_info ''live_status'' of
                         None \<Rightarrow> (Failed, p2)
                       | Some v \<Rightarrow>
                           (Added, p2\<lparr>live_status_cache := (live_status_cache p2)(uid \<mapsto> v)\<rparr>))))))"

section \<open>Notions used in the statements\<close>

text \<open>
  The replies the specification calls errors: a transport error or timeout, a status
  other than 200, a payload that does not parse or is not an object, and an
  application-level code other than 0.
\<close>

fun upstream_error :: "reply \<Rightarrow> bool" where
  "upstream_error Raises = True"
| "upstream_error (Response st None) = True"
| "upstream_error (Response st (Some (JObj body))) =
     (st \<noteq> 200 \<or> \<not> py_eq_int (dict_get body ''code'') 0)"
| "upstream_error (Response st (Some v)) = True"

text \<open>
  The record the upstream response holds for an identifier, as lines 161-162 and
  176-177 look it up: \<open>None\<close> when the identifier is missing from the response.
\<close>

definition upstream_record :: "builtins \<Rightarrow> reply \<Rightarrow> string \<Rightarrow> obj option" where
  "upstream_record b r u =
     (if upstream_error r then None
      else
        (case r of
           Response st (Some (JObj body)) \<Rightarrow>
             (case dict_get_default body ''data'' (JObj []) of
                JObj data_obj \<Rightarrow>
                  (case dict_get data_obj u of
                     JObj d \<Rightarrow> if d \<noteq> [] then Some d else None
                   | _ \<Rightarrow> None)
              | JArr data_obj \<Rightarrow>
                  (case index_by_uid b data_obj Map.empty of
                     Some by_uid \<Rightarrow>
                       (case by_uid u of
                          Some e \<Rightarrow> if e \<noteq> [] then Some e else None
                        | None \<Rightarrow> None)
                   | None \<Rightarrow> None)
              | _ \<Rightarrow> None)
         | _ \<Rightarrow> None))"

text \<open>
  The interval after a run of passes that all complete, from the value
  \<open>current_interval\<close> starts with (line 23), given the rate-limited signal each
  update sees.
\<close>

definition interval_after :: "int \<Rightarrow> bool list \<Rightarrow> int" where
  "interval_after base signals =
     foldl (\<lambda>cur rate_limited. adjust_interval base rate_limited cur) base signals"

text \<open>The two tests of lines 225 and 229.\<close>

definition went_live :: "status \<Rightarrow> json \<Rightarrow> bool" where
  "went_live cs prev = (py_eq_int (dict_get cs ''live_status'') 1 \<and> \<not> py_eq_int prev 1)"

definition went_offline :: "status \<Rightarrow> json \<Rightarrow> bool" where
  "went_offline cs prev = (py_eq_int prev 1 \<and> \<not> py_eq_int (dict_get cs ''live_status'') 1)"

text \<open>Line 238: \<open>self.uid_error_counts.get(uid, 0)\<close>.\<close>

definition error_count_of :: "plugin \<Rightarrow> string \<Rightarrow> int" where
  "error_count_of p uid = (case uid_error_counts p uid of None \<Rightarrow> 0 | Some c \<Rightarrow> c)"

text \<open>
  The status a pass compares for an identifier (line 221): its entry in the dict the
  fetch of the pass returned, or the default.
\<close>

definition cycle_status :: "builtins \<Rightarrow> cycle_input \<Rightarrow> plugin \<Rightarrow> string \<Rightarrow> status" where
  "cycle_status b i p uid =
     current_status_of
       (case fetched i of
          None \<Rightarrow> Map.empty
        | Some r \<Rightarrow>
            snd (get_live_status_batch b (eligible_uids (now i) p (monitored_uids p)) r (last_rate_limited p)))
       uid"

text \<open>The reply the specification calls rate limiting: HTTP status 429.\<close>

fun rate_limited_reply :: "reply \<Rightarrow> bool" where
  "rate_limited_reply Raises = False"
| "rate_limited_reply (Response st payload) = (st = 429)"

text \<open>
  The flag after a sequence of status requests, each with the identifiers it asks
  for and its reply, from its value before them: a request that is sent (all its
  identifiers convert) and answered with HTTP 429 sets it, one answered with HTTP
  200 and application code 0 clears it, and any other leaves it as it was.
\<close>

fun signal_after :: "builtins \<Rightarrow> bool \<Rightarrow> (string list \<times> reply) list \<Rightarrow> bool" where
  "signal_after b fl [] = fl"
| "signal_after b fl ((uids, r) # rest) =
     signal_after b
       (if list_all (int_ok b) uids \<and> rate_limited_reply r then True
        else if list_all (int_ok b) uids \<and> \<not> upstream_error r then False
        else fl)
       rest"

text \<open>The entry of lines 339-345, from the event, the clock and the looked-up status.\<close>

definition new_entry :: "event \<Rightarrow> real \<Rightarrow> status \<Rightarrow> entry" where
  "new_entry ev t status_info =
     \<lparr>uname = dict_get_default status_info ''uname'' (JStr ''''),
      room_id = dict_get_default status_info ''room_id'' (JInt 0),
      added_by = sender_name ev,
      added_time = t,
      unified_msg_origin = Some (event_origin ev)\<rparr>"

text \<open>
  A notification of a kind is sent for an identifier in a trace: the call of the
  dispatcher of that kind for the identifier is followed, before the next call of a
  dispatcher, by a call of \<open>send_message\<close>.
\<close>

fun is_dispatch :: "action \<Rightarrow> bool" where
  "is_dispatch (Dispatch k u) = True"
| "is_dispatch (SendMessage target m) = False"
| "is_dispatch (Log l) = False"
| "is_dispatch (Sleep d) = False"

fun is_send :: "action \<Rightarrow> bool" where
  "is_send (SendMessage target m) = True"
| "is_send (Dispatch k u) = False"
| "is_send (Log l) = False"
| "is_send (Sleep d) = False"

fun after_dispatch :: "kind \<Rightarrow> string \<Rightarrow> action list \<Rightarrow> action list" where
  "after_dispatch k uid [] = []"
| "after_dispatch k uid (a # tr) =
     (if a = Dispatch k uid then takeWhile (\<lambda>x. \<not> is_dispatch x) tr
      else after_dispatch k uid tr)"

definition notification_sent :: "kind \<Rightarrow> string \<Rightarrow> action list \<Rightarrow> bool" where
  "notification_sent k uid tr = list_ex is_send (after_dispatch k uid tr)"

section \<open>Sample inputs\<close>

text \<open>
  A choice of the two builtins for the sample runs: \<open>int\<close> accepts the non-empty
  strings of ASCII digits.
\<close>

definition sample_builtins :: builtins where
  "sample_builtins = \<lparr>int_ok = (\<lambda>u. u \<noteq> [] \<and> list_all (\<lambda>c. c \<in> set ''0123456789'') u), repr_of = (\<lambda>v. ''?'')\<rparr>"

definition sample_body :: json where
  "sample_body = JObj [(''code'', JInt 0), (''data'', JObj [(''7'', JObj [(''live_status'', JInt 1), (''room_id'', JInt 999), (''title'', JStr ''t''), (''uname'', JStr ''Alice'')])])]"

text \<open>A plugin that monitors the identifiers 7 and 8.\<close>

definition sample_plugin :: plugin where
  "sample_plugin =
     \<lparr>check_interval = 60, max_monitors = 50, enable_notifications = True,
      enable_end_notifications = True,
      monitored_uids =
        [(''7'', \<lparr>uname = JStr ''Alice'', room_id = JInt 999, added_by = ''bob'', added_time = 10,
                  unified_msg_origin = Some ''group:1''\<rparr>),
         (''8'', \<lparr>uname = JStr ''Carol'', room_id = JInt 5, added_by = ''bob'', added_time = 11,
                  unified_msg_origin = Some ''group:1''\<rparr>)],
      live_status_cache = Map.empty, uid_error_counts = Map.empty, uid_skip_until = Map.empty,
      current_interval = 60, last_rate_limited = False\<rparr>"

text \<open>A pass at time 100 whose fetch knows identifier 7 only, and the state after it.\<close>

definition sample_input :: cycle_input where
  "sample_input =
     \<lparr>now = 100, fetched = Some (Response 200 (Some sample_body)), deliver = (\<lambda>uid. None),
      sleep_cancelled = False, fault = None, lookups = []\<rparr>"

definition sample_after :: plugin where
  "sample_after =
     sample_plugin\<lparr>live_status_cache := [''7'' \<mapsto> JInt 1, ''8'' \<mapsto> JInt 0],
                   uid_error_counts := [''8'' \<mapsto> 1],
                   uid_skip_until := [''8'' \<mapsto> 130]\<rparr>"

text \<open>The next pass, at time 120, and the state after it.\<close>

definition sample_input2 :: cycle_input where
  "sample_input2 = sample_input\<lparr>now := 120\<rparr>"

definition sample_after2 :: plugin where
  "sample_after2 = sample_after\<lparr>uid_error_counts := [''8'' \<mapsto> 2], uid_skip_until := [''8'' \<mapsto> 180]\<rparr>"

text \<open>The first sample pass with every delivery failing, and an entry of the registry.\<close>

definition sample_failing :: cycle_input where
  "sample_failing = sample_input\<lparr>deliver := (\<lambda>uid. Some Exception)\<rparr>"

definition sample_entry :: entry where
  "sample_entry =
     \<lparr>uname = JStr ''Alice'', room_id = JInt 999, added_by = ''bob'', added_time = 10,
      unified_msg_origin = Some ''group:1''\<rparr>"

text \<open>
  The first sample pass with an Exception before its first item, and with its sleep
  cancelled.
\<close>

definition sample_faulty :: cycle_input where
  "sample_faulty = sample_input\<lparr>fault := Some 0\<rparr>"

definition sample_cancelled :: cycle_input where
  "sample_cancelled = sample_input\<lparr>sleep_cancelled := True\<rparr>"

text \<open>
  A pass at time 100 whose fetch gets HTTP 429, the state after it, a pass at time
  160 whose fetch gets HTTP 503, and the state after that one.
\<close>

definition sample_429 :: cycle_input where
  "sample_429 = sample_input\<lparr>fetched := Some (Response 429 None)\<rparr>"

definition sample_limited :: plugin where
  "sample_limited =
     sample_plugin\<lparr>live_status_cache := [''7'' \<mapsto> JInt 0, ''8'' \<mapsto> JInt 0],
                   uid_error_counts := [''7'' \<mapsto> 1, ''8'' \<mapsto> 1],
                   uid_skip_until := [''7'' \<mapsto> 130, ''8'' \<mapsto> 130],
                   current_interval := 120, last_rate_limited := True\<rparr>"

definition sample_503 :: cycle_input where
  "sample_503 = sample_input\<lparr>now := 160, fetched := Some (Response 503 None)\<rparr>"

definition sample_limited2 :: plugin where
  "sample_limited2 =
     sample_limited\<lparr>uid_error_counts := [''7'' \<mapsto> 2, ''8'' \<mapsto> 2],
                    uid_skip_until := [''7'' \<mapsto> 220, ''8'' \<mapsto> 220],
                    current_interval := 240\<rparr>"

text \<open>
  The pass at time 100 whose fetch gets HTTP 429, with a command looking up
  identifier 7 successfully during its sleep, and the state after it.
\<close>

definition sample_429_lookup :: cycle_input where
  "sample_429_lookup = sample_429\<lparr>lookups := [(''7'', Response 200 (Some sample_body))]\<rparr>"

definition sample_cleared :: plugin where
  "sample_cleared = sample_limited\<lparr>current_interval := 60, last_rate_limited := False\<rparr>"

text \<open>The plugin with notifications disabled.\<close>

definition sample_muted :: plugin where
  "sample_muted = sample_plugin\<lparr>enable_notifications := False\<rparr>"

text \<open>
  A pass at time 200, from the state after the first pass, whose fetch finds
  identifier 7 no longer live, and the state after it.
\<close>

definition sample_body_off :: json where
  "sample_body_off =
     JObj [(''code'', JInt 0),
           (''data'', JObj [(''7'', JObj [(''live_status'', JInt 0), (''room_id'', JInt 999),
                                         (''title'', JStr ''t''), (''uname'', JStr ''Alice'')])])]"

definition sample_input3 :: cycle_input where
  "sample_input3 = sample_input\<lparr>now := 200, fetched := Some (Response 200 (Some sample_body_off))\<rparr>"

definition sample_after3 :: plugin where
  "sample_after3 =
     sample_after\<lparr>live_status_cache := [''7'' \<mapsto> JInt 0, ''8'' \<mapsto> JInt 0],
                  uid_error_counts := [''8'' \<mapsto> 2],
                  uid_skip_until := [''8'' \<mapsto> 260]\<rparr>"

text \<open>
  The state after the first pass with identifier 8 cached as live, and the same with
  end notifications disabled.
\<close>

definition sample_live8 :: plugin where
  "sample_live8 = sample_after\<lparr>live_status_cache := [''7'' \<mapsto> JInt 1, ''8'' \<mapsto> JInt 1]\<rparr>"

definition sample_live8_muted :: plugin where
  "sample_live8_muted = sample_live8\<lparr>enable_end_notifications := False\<rparr>"

text \<open>The entry of identifier 8 in the sample registry.\<close>

definition sample_entry8 :: entry where
  "sample_entry8 =
     \<lparr>uname = JStr ''Carol'', room_id = JInt 5, added_by = ''bob'', added_time = 11,
      unified_msg_origin = Some ''group:1''\<rparr>"

text \<open>A command that adds identifier 7 again, from another sender and conversation.\<close>

definition sample_event :: event where
  "sample_event = \<lparr>message_str = ''add 7'', sender_name = ''dave'', event_origin = ''group:2''\<rparr>"

section \<open>Properties of the Batch Status Fetcher\<close>

lemma fill_defaults_apply:
  "fill_defaults us m u = (if m u = None \<and> u \<in> set us then Some zero_status else m u)"
  by (induction us arbitrary: m) auto

lemma dom_fill_defaults: "dom (fill_defaults us m) = dom m \<union> set us"
  by (auto simp: fill_defaults_apply dom_def)

lemma from_dict_apply:
  "from_dict data_obj us m u = m u \<or>
   (u \<in> set us \<and> (\<exists>d. dict_get data_obj u = JObj d \<and> d \<noteq> [] \<and> from_dict data_obj us m u = Some (status_of d)))"
proof (induction us arbitrary: m)
  case Nil
  then show ?case by simp
next
  case (Cons a us)
  show ?case
  proof (cases "\<exists>d. dict_get data_obj a = JObj d \<and> d \<noteq> []")
    case True
    then obtain d where d: "dict_get data_obj a = JObj d" "d \<noteq> []" by blast
    define m' where "m' = m(a \<mapsto> status_of d)"
    have step: "from_dict data_obj (a # us) m u = from_dict data_obj us m' u"
      using d by (simp add: m'_def)
    have m': "m' u = (if u = a then Some (status_of d) else m u)"
      by (simp add: m'_def)
    have mem: "u \<in> set (a # us) \<longleftrightarrow> u = a \<or> u \<in> set us" by simp
    show ?thesis
      unfolding step mem using Cons.IH [of m'] m' d by metis
  next
    case False
    then have "from_dict data_obj (a # us) m = from_dict data_obj us m \<or> from_dict data_obj (a # us) m = m"
      by (cases "dict_get data_obj a") (auto simp: Let_def)
    moreover have mem: "u \<in> set (a # us) \<longleftrightarrow> u = a \<or> u \<in> set us" by simp
    ultimately show ?thesis
      using Cons.IH [of m] by metis
  qed
qed

lemma from_list_apply:
  "from_list by_uid us m u = m u \<or>
   (u \<in> set us \<and> (\<exists>e. by_uid u = Some e \<and> e \<noteq> [] \<and> from_list by_uid us m u = Some (status_of e)))"
proof (induction us arbitrary: m)
  case Nil
  then show ?case by simp
next
  case (Cons a us)
  have mem: "u \<in> set (a # us) \<longleftrightarrow> u = a \<or> u \<in> set us" by simp
  show ?case
  proof (cases "\<exists>e. by_uid a = Some e \<and> e \<noteq> []")
    case True
    then obtain e where e: "by_uid a = Some e" "e \<noteq> []" by blast
    define m' where "m' = m(a \<mapsto> status_of e)"
    have step: "from_list by_uid (a # us) m u = from_list by_uid us m' u"
      using e by (simp add: m'_def)
    have m': "m' u = (if u = a then Some (status_of e) else m u)"
      by (simp add: m'_def)
    show ?thesis
      unfolding step mem using Cons.IH [of m'] m' e by metis
  next
    case False
    then have "from_list by_uid (a # us) m = from_list by_uid us m"
      by (cases "by_uid a") auto
    then show ?thesis
      unfolding mem using Cons.IH [of m] by metis
  qed
qed

lemma fetch_error:
  assumes "upstream_error r"
  shows "fetch b uids r fl =
           (if \<not> list_all (int_ok b) uids then fl
            else if r = Response 429 None \<or> (\<exists>x. r = Response 429 (Some x)) then True
            else fl,
            Map.empty)"
  using assms by (cases r rule: upstream_error.cases) (auto simp: fetch_def)

lemma fetch_apply:
  "snd (fetch b uids r fl) u = None \<or>
   (u \<in> set uids \<and> (\<exists>d. upstream_record b r u = Some d \<and> snd (fetch b uids r fl) u = Some (status_of d)))"
proof (cases "upstream_error r")
  case True
  then show ?thesis by (simp add: fetch_error)
next
  case False
  then obtain st body where r: "r = Response st (Some (JObj body))"
    by (cases r rule: upstream_error.cases) auto
  with False have ok: "st = 200" "py_eq_int (dict_get body ''code'') 0" by auto
  show ?thesis
  proof (cases "list_all (int_ok b) uids")
    case False
    then show ?thesis by (simp add: fetch_def)
  next
    case True
    show ?thesis
    proof (cases "dict_get_default body ''data'' (JObj [])")
      case (JObj data_obj)
      with r ok True from_dict_apply [of data_obj uids Map.empty u] show ?thesis
        by (auto simp: fetch_def upstream_record_def)
    next
      case (JArr es)
      show ?thesis
      proof (cases "index_by_uid b es Map.empty")
        case None
        with r ok True JArr show ?thesis by (simp add: fetch_def)
      next
        case (Some by_uid)
        with r ok True JArr from_list_apply [of by_uid uids Map.empty u] show ?thesis
          by (auto simp: fetch_def upstream_record_def)
      qed
    qed (use r ok True in \<open>simp_all add: fetch_def\<close>)
  qed
qed

text \<open>
  Claim C1. For every list of requested identifiers and every reply,
  \<open>get_live_status_batch\<close> returns a dict (the function is total: no Exception leaves
  it) whose key set is exactly the requested set; on an error reply every requested
  identifier has the zero-value status; and in every case an identifier missing
  from the upstream response has the zero-value status.
\<close>

theorem get_live_status_batch_keys:
  "dom (snd (get_live_status_batch b uids r fl)) = set uids \<and>
   (upstream_error r \<longrightarrow>
      snd (get_live_status_batch b uids r fl) = (\<lambda>u. if u \<in> set uids then Some zero_status else None)) \<and>
   (\<forall>u\<in>set uids. upstream_record b r u = None \<longrightarrow>
      snd (get_live_status_batch b uids r fl) u = Some zero_status)"
proof (intro conjI impI ballI)
  have "snd (fetch b uids r fl) x \<noteq> None \<Longrightarrow> x \<in> set uids" for x
    using fetch_apply [of b uids r fl] by (metis option.distinct(1))
  then have sub: "dom (snd (fetch b uids r fl)) \<subseteq> set uids"
    by (auto simp: dom_def)
  show "dom (snd (get_live_status_batch b uids r fl)) = set uids"
    using sub by (auto simp: get_live_status_batch_def dom_fill_defaults split: prod.splits)
next
  assume "upstream_error r"
  then show "snd (get_live_status_batch b uids r fl) = (\<lambda>u. if u \<in> set uids then Some zero_status else None)"
    by (auto simp: get_live_status_batch_def fetch_error fill_defaults_apply fun_eq_iff)
next
  fix u assume "u \<in> set uids" "upstream_record b r u = None"
  then show "snd (get_live_status_batch b uids r fl) u = Some zero_status"
    using fetch_apply [of b uids r fl u]
    by (auto simp: get_live_status_batch_def fill_defaults_apply split: prod.splits)
qed

theorem get_live_status_batch_keys_witness:
  "dom (snd (get_live_status_batch sample_builtins [''7'', ''8''] (Response 200 (Some sample_body)) False)) = {''7'', ''8''} \<and>
   upstream_record sample_builtins (Response 200 (Some sample_body)) ''8'' = None \<and>
   snd (get_live_status_batch sample_builtins [''7'', ''8''] (Response 200 (Some sample_body)) False) ''8'' = Some zero_status \<and>
   upstream_error (Response 503 None) \<and>
   snd (get_live_status_batch sample_builtins [''7'', ''8''] (Response 503 None) False) ''7'' = Some zero_status"
proof -
  have r: "upstream_record sample_builtins (Response 200 (Some sample_body)) ''8'' = None"
    by (simp add: upstream_record_def sample_body_def dict_get_def dict_get_default_def)
  have e: "upstream_error (Response 503 None)" by simp
  have m: "''8'' \<in> set [''7'', ''8'']" by simp
  from get_live_status_batch_keys [of sample_builtins "[''7'', ''8'']" "Response 200 (Some sample_body)" False] r m
       get_live_status_batch_keys [of sample_builtins "[''7'', ''8'']" "Response 503 None" False] e
  show ?thesis by auto
qed

lemma dom_get_live_status_batch: "dom (snd (get_live_status_batch b uids r fl)) = set uids"
proof -
  have "snd (fetch b uids r fl) x \<noteq> None \<Longrightarrow> x \<in> set uids" for x
    using fetch_apply [of b uids r fl] by metis
  then have sub: "dom (snd (fetch b uids r fl)) \<subseteq> set uids"
    by (auto simp: dom_def)
  then show ?thesis
    by (auto simp: get_live_status_batch_def dom_fill_defaults split: prod.splits)
qed

text \<open>
  Claim C9. For every identifier and reply, the dict of \<open>get_live_status_batch\<close> on the
  one-element list holds the identifier, and \<open>get_live_status\<close> returns exactly that
  entry (with the same update of the rate-limited flag): the fallback of line 138
  is never taken.
\<close>

theorem get_live_status_is_batch_entry:
  "\<exists>s. snd (get_live_status_batch b [uid] r fl) uid = Some s \<and>
        get_live_status b uid r fl = (fst (get_live_status_batch b [uid] r fl), s)"
proof -
  have "uid \<in> dom (snd (get_live_status_batch b [uid] r fl))"
    by (simp add: dom_get_live_status_batch)
  then obtain s where s: "snd (get_live_status_batch b [uid] r fl) uid = Some s"
    by blast
  then have "get_live_status b uid r fl = (fst (get_live_status_batch b [uid] r fl), s)"
    by (cases "get_live_status_batch b [uid] r fl") (simp add: get_live_status_def)
  with s show ?thesis by blast
qed

section \<open>Properties of the Adaptive Interval Controller\<close>

lemma three_quarters_le: "three_quarters cur \<le> max 0 cur"
proof (cases "0 \<le> cur")
  case True
  then have "(3 * cur) div 4 \<le> cur" by presburger
  with True show ?thesis by (simp add: three_quarters_def)
next
  case False
  then have "0 \<le> (3 * (- cur)) div 4" by presburger
  with False show ?thesis by (simp add: three_quarters_def)
qed

lemma adjust_interval_range:
  assumes "base \<le> 300" "base \<le> cur" "cur \<le> 300"
  shows "base \<le> adjust_interval base rl cur \<and> adjust_interval base rl cur \<le> 300"
  using assms three_quarters_le [of cur] by (auto simp: adjust_interval_def)

lemma foldl_adjust_range:
  "base \<le> 300 \<Longrightarrow> base \<le> cur \<Longrightarrow> cur \<le> 300 \<Longrightarrow>
   base \<le> foldl (\<lambda>c rl. adjust_interval base rl c) cur signals \<and>
   foldl (\<lambda>c rl. adjust_interval base rl c) cur signals \<le> 300"
proof (induction signals arbitrary: cur)
  case Nil
  then show ?case by simp
next
  case (Cons rl signals)
  from adjust_interval_range [OF Cons.prems, of rl] Cons.prems(1)
  show ?case by (simp add: Cons.IH)
qed

text \<open>
  Claim C4, amended. When the configured base interval is at most 300, the interval
  stays within \<open>[base, 300]\<close> after every pass, for every sequence of rate-limited
  signals.
\<close>

theorem interval_within_bounds:
  "base \<le> 300 \<Longrightarrow> base \<le> interval_after base signals \<and> interval_after base signals \<le> 300"
  unfolding interval_after_def by (rule foldl_adjust_range) simp_all

theorem interval_within_bounds_witness:
  "(60::int) \<le> 300 \<and> interval_after 60 [True, True, True, False, False] = 168 \<and>
   60 \<le> interval_after 60 [True, True, True, False, False] \<and>
   interval_after 60 [True, True, True, False, False] \<le> 300"
proof -
  have h: "(60::int) \<le> 300" by simp
  have v: "interval_after 60 [True, True, True, False, False] = 168"
    by (simp add: interval_after_def adjust_interval_def three_quarters_def)
  from interval_within_bounds [OF h, of "[True, True, True, False, False]"] h v show ?thesis by simp
qed

text \<open>
  Claim C4 as stated fails for a base interval above 300: with
  \<open>check_interval = 600\<close> the interval after one pass without rate limiting is 600.
\<close>

theorem interval_bounds_counterexample:
  "\<not> (600 \<le> interval_after 600 [False] \<and> interval_after 600 [False] \<le> 300)"
  by (simp add: interval_after_def adjust_interval_def three_quarters_def)

section \<open>Properties of the dispatchers and of one pass of the loop\<close>

lemma send_live_notification_raises:
  "fst (send_live_notification p sent uid s info) =
     (if enable_notifications p \<and> origin_set (unified_msg_origin info) \<and> sent = Some CancelledError
      then Some CancelledError else None)"
  by (auto simp: send_live_notification_def Let_def split: option.splits raised.splits)

lemma send_end_notification_raises:
  "fst (send_end_notification p sent uid s info) =
     (if enable_notifications p \<and> enable_end_notifications p \<and>
         origin_set (unified_msg_origin info) \<and> sent = Some CancelledError
      then Some CancelledError else None)"
  by (auto simp: send_end_notification_def Let_def split: option.splits raised.splits)

lemma send_live_notification_no_dispatch:
  "Dispatch k u \<notin> set (snd (send_live_notification p sent uid s info))"
  by (auto simp: send_live_notification_def Let_def split: option.splits raised.splits)

lemma send_end_notification_no_dispatch:
  "Dispatch k u \<notin> set (snd (send_end_notification p sent uid s info))"
  by (auto simp: send_end_notification_def Let_def split: option.splits raised.splits)

lemma process_uid_unfold:
  "process_uid i sm uid info p =
     (let cs = current_status_of sm uid; prev = previous_status_of p uid;
          l = send_live_notification p (deliver i uid) uid cs info;
          e = send_end_notification p (deliver i uid) uid cs info
      in if went_live cs prev then
           (case fst l of
              Some x \<Rightarrow> (Some x, Dispatch Live uid # snd l, p)
            | None \<Rightarrow> (None, Dispatch Live uid # snd l, record_status (now i) uid cs p))
         else if went_offline cs prev then
           (case fst e of
              Some x \<Rightarrow> (Some x, Dispatch End uid # snd e, p)
            | None \<Rightarrow> (None, Dispatch End uid # snd e, record_status (now i) uid cs p))
         else (None, [], record_status (now i) uid cs p))"
  by (auto simp: process_uid_def went_live_def went_offline_def Let_def split: prod.splits option.splits)

lemma process_uid_dispatch:
  "Dispatch k u \<in> set (fst (snd (process_uid i sm uid info p))) \<longleftrightarrow>
     u = uid \<and>
     (k = Live \<and> went_live (current_status_of sm uid) (previous_status_of p uid) \<or>
      k = End \<and> went_offline (current_status_of sm uid) (previous_status_of p uid))"
  using send_live_notification_no_dispatch send_end_notification_no_dispatch
  by (auto simp: process_uid_unfold Let_def went_live_def went_offline_def split: option.splits)

lemma process_uid_state:
  "snd (snd (process_uid i sm uid info p)) =
     (if fst (process_uid i sm uid info p) = None
      then record_status (now i) uid (current_status_of sm uid) p else p)"
  by (auto simp: process_uid_unfold Let_def split: option.splits)

lemma process_uid_raises:
  "fst (process_uid i sm uid info p) = Some x \<Longrightarrow>
     x = CancelledError \<and> deliver i uid = Some CancelledError"
  by (auto simp: process_uid_unfold Let_def send_live_notification_raises send_end_notification_raises
           split: option.splits if_splits)

lemma process_uid_returns:
  "deliver i uid \<noteq> Some CancelledError \<Longrightarrow> fst (process_uid i sm uid info p) = None"
  using process_uid_raises [of i sm uid info p] by (cases "fst (process_uid i sm uid info p)") auto


lemma record_status_cache:
  "live_status_cache (record_status t uid cs p) =
     (live_status_cache p)(uid \<mapsto> dict_get_default cs ''live_status'' (JInt 0))"
  by (simp add: record_status_def Let_def)

lemma record_status_counts:
  "uid_error_counts (record_status t uid cs p) =
     (if is_empty cs then (uid_error_counts p)(uid \<mapsto> error_count_of p uid + 1)
      else (uid_error_counts p)(uid := None))"
  by (simp add: record_status_def Let_def error_count_of_def)

lemma record_status_skip:
  "uid_skip_until (record_status t uid cs p) =
     (if is_empty cs
      then (uid_skip_until p)(uid \<mapsto> t + of_int (min 300 (30 * (error_count_of p uid + 1))))
      else (uid_skip_until p)(uid := None))"
  by (simp add: record_status_def Let_def error_count_of_def)

lemma record_status_globals:
  "check_interval (record_status t uid cs p) = check_interval p"
  "max_monitors (record_status t uid cs p) = max_monitors p"
  "enable_notifications (record_status t uid cs p) = enable_notifications p"
  "enable_end_notifications (record_status t uid cs p) = enable_end_notifications p"
  "monitored_uids (record_status t uid cs p) = monitored_uids p"
  "current_interval (record_status t uid cs p) = current_interval p"
  "last_rate_limited (record_status t uid cs p) = last_rate_limited p"
  by (simp_all add: record_status_def Let_def)

lemma record_status_other:
  "u \<noteq> uid \<Longrightarrow>
     live_status_cache (record_status t uid cs p) u = live_status_cache p u \<and>
     uid_error_counts (record_status t uid cs p) u = uid_error_counts p u \<and>
     uid_skip_until (record_status t uid cs p) u = uid_skip_until p u"
  by (simp add: record_status_cache record_status_counts record_status_skip)

lemma process_items_Cons:
  "process_items i sm k ((u, info) # rest) p =
     (if fault i = Some k then (Some Exception, [], p)
      else if fst (process_uid i sm u info p) \<noteq> None then process_uid i sm u info p
      else (fst (process_items i sm (Suc k) rest (record_status (now i) u (current_status_of sm u) p)),
            fst (snd (process_uid i sm u info p)) @
              fst (snd (process_items i sm (Suc k) rest (record_status (now i) u (current_status_of sm u) p))),
            snd (snd (process_items i sm (Suc k) rest (record_status (now i) u (current_status_of sm u) p)))))"
proof (cases "process_uid i sm u info p")
  case (fields r tr p')
  with process_uid_state [of i sm u info p] show ?thesis
    by (cases r) (auto split: prod.splits)
qed

lemma process_items_frame:
  "uid \<notin> fst ` set items \<Longrightarrow>
     live_status_cache (snd (snd (process_items i sm k items p))) uid = live_status_cache p uid \<and>
     uid_error_counts (snd (snd (process_items i sm k items p))) uid = uid_error_counts p uid \<and>
     uid_skip_until (snd (snd (process_items i sm k items p))) uid = uid_skip_until p uid \<and>
     (\<forall>kd. Dispatch kd uid \<notin> set (fst (snd (process_items i sm k items p))))"
proof (induction items arbitrary: p k)
  case Nil
  then show ?case by simp
next
  case (Cons a items)
  obtain u info where a: "a = (u, info)" by (cases a)
  with Cons.prems have ne: "uid \<noteq> u" and rest: "uid \<notin> fst ` set items" by auto
  note IH = Cons.IH [OF rest, of "Suc k" "record_status (now i) u (current_status_of sm u) p"]
  have one: "\<forall>kd. Dispatch kd uid \<notin> set (fst (snd (process_uid i sm u info p)))"
    using ne by (simp add: process_uid_dispatch)
  have st: "snd (snd (process_uid i sm u info p)) = p \<or>
            snd (snd (process_uid i sm u info p)) = record_status (now i) u (current_status_of sm u) p"
    by (simp add: process_uid_state)
  show ?case
    unfolding a process_items_Cons
    using IH one st record_status_other [OF ne, of "now i" "current_status_of sm u" p]
    by auto
qed

lemma process_items_globals:
  "check_interval (snd (snd (process_items i sm k items p))) = check_interval p \<and>
   current_interval (snd (snd (process_items i sm k items p))) = current_interval p \<and>
   last_rate_limited (snd (snd (process_items i sm k items p))) = last_rate_limited p \<and>
   monitored_uids (snd (snd (process_items i sm k items p))) = monitored_uids p \<and>
   enable_notifications (snd (snd (process_items i sm k items p))) = enable_notifications p \<and>
   enable_end_notifications (snd (snd (process_items i sm k items p))) = enable_end_notifications p"
proof (induction items arbitrary: p k)
  case Nil
  then show ?case by simp
next
  case (Cons a items)
  obtain u info where a: "a = (u, info)" by (cases a)
  note IH = Cons.IH [of "Suc k" "record_status (now i) u (current_status_of sm u) p"]
  have st: "snd (snd (process_uid i sm u info p)) = p \<or>
            snd (snd (process_uid i sm u info p)) = record_status (now i) u (current_status_of sm u) p"
    by (simp add: process_uid_state)
  show ?case
    unfolding a process_items_Cons
    using IH st by (auto simp: record_status_globals)
qed

lemma process_items_at:
  assumes "distinct (map fst items)" "uid \<in> fst ` set items"
      and "fst (process_items i sm k items p) = None"
  shows "live_status_cache (snd (snd (process_items i sm k items p))) uid =
           Some (dict_get_default (current_status_of sm uid) ''live_status'' (JInt 0)) \<and>
         uid_error_counts (snd (snd (process_items i sm k items p))) uid =
           (if is_empty (current_status_of sm uid) then Some (error_count_of p uid + 1) else None) \<and>
         uid_skip_until (snd (snd (process_items i sm k items p))) uid =
           (if is_empty (current_status_of sm uid)
            then Some (now i + of_int (min 300 (30 * (error_count_of p uid + 1)))) else None) \<and>
         (\<forall>kd. Dispatch kd uid \<in> set (fst (snd (process_items i sm k items p))) \<longleftrightarrow>
            (kd = Live \<and> went_live (current_status_of sm uid) (previous_status_of p uid) \<or>
             kd = End \<and> went_offline (current_status_of sm uid) (previous_status_of p uid)))"
  using assms
proof (induction items arbitrary: p k)
  case Nil
  then show ?case by simp
next
  case (Cons a items)
  obtain u info where a: "a = (u, info)" by (cases a)
  define p1 where "p1 = record_status (now i) u (current_status_of sm u) p"
  from Cons.prems(3) have nf: "fault i \<noteq> Some k" and r1: "fst (process_uid i sm u info p) = None"
    and r2: "fst (process_items i sm (Suc k) items p1) = None"
    unfolding a process_items_Cons p1_def by (auto split: if_splits)
  have eq: "process_items i sm k (a # items) p =
              (None, fst (snd (process_uid i sm u info p)) @ fst (snd (process_items i sm (Suc k) items p1)),
               snd (snd (process_items i sm (Suc k) items p1)))"
    unfolding a process_items_Cons p1_def [symmetric] using nf r1 r2 by simp
  show ?case
  proof (cases "uid = u")
    case True
    with Cons.prems(1) a have "uid \<notin> fst ` set items" by auto
    from process_items_frame [OF this, of i sm "Suc k" p1]
    show ?thesis
      unfolding eq using True
      by (auto simp: p1_def record_status_cache record_status_counts record_status_skip process_uid_dispatch)
  next
    case False
    with Cons.prems(2) a have mem: "uid \<in> fst ` set items" by auto
    from Cons.prems(1) have d: "distinct (map fst items)" by simp
    have same: "error_count_of p1 uid = error_count_of p uid"
               "previous_status_of p1 uid = previous_status_of p uid"
      using record_status_other [OF False, of "now i" "current_status_of sm u" p]
      by (simp_all add: p1_def error_count_of_def previous_status_of_def)
    from Cons.IH [OF d mem r2] False
    show ?thesis
      unfolding eq same by (auto simp: process_uid_dispatch)
  qed
qed

lemma cycle_body_fetched:
  "fetched i = Some r \<Longrightarrow>
   cycle_body b i p =
     process_items i (snd (get_live_status_batch b (eligible_uids (now i) p (monitored_uids p)) r (last_rate_limited p)))
       0 (monitored_uids p)
       (p\<lparr>last_rate_limited :=
            fst (get_live_status_batch b (eligible_uids (now i) p (monitored_uids p)) r (last_rate_limited p))\<rparr>)"
  by (simp add: cycle_body_def Let_def split: prod.splits)

lemma cycle_body_cancelled: "fetched i = None \<Longrightarrow> cycle_body b i p = (Some CancelledError, [], p)"
  by (simp add: cycle_body_def Let_def)

lemma cycle_body_at:
  assumes "distinct (map fst (monitored_uids p))" "uid \<in> fst ` set (monitored_uids p)"
      and "fst (cycle_body b i p) = None"
  shows "live_status_cache (snd (snd (cycle_body b i p))) uid =
           Some (dict_get_default (cycle_status b i p uid) ''live_status'' (JInt 0)) \<and>
         uid_error_counts (snd (snd (cycle_body b i p))) uid =
           (if is_empty (cycle_status b i p uid) then Some (error_count_of p uid + 1) else None) \<and>
         uid_skip_until (snd (snd (cycle_body b i p))) uid =
           (if is_empty (cycle_status b i p uid)
            then Some (now i + of_int (min 300 (30 * (error_count_of p uid + 1)))) else None) \<and>
         (\<forall>kd. Dispatch kd uid \<in> set (fst (snd (cycle_body b i p))) \<longleftrightarrow>
            (kd = Live \<and> went_live (cycle_status b i p uid) (previous_status_of p uid) \<or>
             kd = End \<and> went_offline (cycle_status b i p uid) (previous_status_of p uid)))"
proof -
  from assms(3) obtain r where r: "fetched i = Some r"
    by (cases "fetched i") (auto simp: cycle_body_cancelled)
  define sm where "sm = snd (get_live_status_batch b (eligible_uids (now i) p (monitored_uids p)) r (last_rate_limited p))"
  define q where "q = p\<lparr>last_rate_limited :=
            fst (get_live_status_batch b (eligible_uids (now i) p (monitored_uids p)) r (last_rate_limited p))\<rparr>"
  have cb: "cycle_body b i p = process_items i sm 0 (monitored_uids p) q"
    unfolding sm_def q_def by (rule cycle_body_fetched [OF r])
  have cs: "cycle_status b i p uid = current_status_of sm uid"
    by (simp add: cycle_status_def r sm_def)
  have q: "error_count_of q uid = error_count_of p uid" "previous_status_of q uid = previous_status_of p uid"
    by (simp_all add: q_def error_count_of_def previous_status_of_def)
  from process_items_at [OF assms(1,2), of i sm 0 q] assms(3)
  show ?thesis unfolding cb cs q by simp
qed

lemma live_default_same:
  "py_eq_int (dict_get_default cs k (JInt 0)) 1 \<longleftrightarrow> py_eq_int (dict_get cs k) 1"
  by (simp add: dict_get_def dict_get_default_def split: option.splits)

text \<open>The two sample passes, evaluated.\<close>

lemma sample_status_map:
  "get_live_status_batch sample_builtins [''7''] (Response 200 (Some sample_body)) False =
     (False, [''7'' \<mapsto> [(''live_status'', JInt 1), (''room_id'', JInt 999), (''title'', JStr ''t''), (''uname'', JStr ''Alice'')]])"
  by (simp add: get_live_status_batch_def fetch_def sample_body_def sample_builtins_def
        dict_get_def dict_get_default_def status_of_def)

lemma sample_status_map2:
  "get_live_status_batch sample_builtins [''7'', ''8''] (Response 200 (Some sample_body)) False =
     (False, [''7'' \<mapsto> [(''live_status'', JInt 1), (''room_id'', JInt 999), (''title'', JStr ''t''), (''uname'', JStr ''Alice'')],
              ''8'' \<mapsto> zero_status])"
  by (simp add: get_live_status_batch_def fetch_def sample_body_def sample_builtins_def
        dict_get_def dict_get_default_def status_of_def)

lemmas sample_defs =
  cycle_body_def eligible_uids_def sample_input_def sample_input2_def sample_plugin_def
  sample_after_def sample_after2_def process_uid_def current_status_of_def previous_status_of_def
  send_live_notification_def send_end_notification_def record_status_def is_empty_def
  dict_get_def dict_get_default_def zero_status_def Let_def

lemma sample_cycle:
  "cycle_body sample_builtins sample_input sample_plugin =
     (None,
      [Dispatch Live ''7'',
       SendMessage ''group:1'' (LiveMessage (JStr ''Alice'') (JStr ''t'') (JInt 999)),
       Log INFO],
      sample_after)"
  by (simp add: sample_defs sample_status_map2 fun_upd_twist)

lemma sample_cycle2:
  "cycle_body sample_builtins sample_input2 sample_after = (None, [], sample_after2)"
  by (simp add: sample_defs sample_status_map)

lemma sample_keys:
  "distinct (map fst (monitored_uids sample_plugin))"
  "distinct (map fst (monitored_uids sample_after))"
  "''7'' \<in> fst ` set (monitored_uids sample_plugin)"
  "''8'' \<in> fst ` set (monitored_uids sample_plugin)"
  "''7'' \<in> fst ` set (monitored_uids sample_after)"
  "''8'' \<in> fst ` set (monitored_uids sample_after)"
  by (simp_all add: sample_plugin_def sample_after_def)

lemma sample_statuses:
  "cycle_status sample_builtins sample_input sample_plugin ''7'' =
     [(''live_status'', JInt 1), (''room_id'', JInt 999), (''title'', JStr ''t''), (''uname'', JStr ''Alice'')]"
  "cycle_status sample_builtins sample_input sample_plugin ''8'' = zero_status"
  "cycle_status sample_builtins sample_input2 sample_after ''7'' =
     [(''live_status'', JInt 1), (''room_id'', JInt 999), (''title'', JStr ''t''), (''uname'', JStr ''Alice'')]"
  by (simp_all add: cycle_status_def sample_defs sample_status_map sample_status_map2)

lemma after_dispatch_append:
  "Dispatch k uid \<notin> set xs \<Longrightarrow> after_dispatch k uid (xs @ ys) = after_dispatch k uid ys"
  by (induction xs) auto

lemma after_dispatch_absent:
  "Dispatch k uid \<notin> set xs \<Longrightarrow> after_dispatch k uid xs = []"
  using after_dispatch_append [of k uid xs "[]"] by simp

lemma takeWhile_segment:
  "list_all (\<lambda>x. \<not> is_dispatch x) d \<Longrightarrow> rest = [] \<or> is_dispatch (hd rest) \<Longrightarrow>
   takeWhile (\<lambda>x. \<not> is_dispatch x) (d @ rest) = d"
  by (cases rest) (auto simp: list_all_iff takeWhile_append2)

lemma takeWhile_quiet:
  "list_all (\<lambda>x. \<not> is_dispatch x) d \<Longrightarrow> takeWhile (\<lambda>x. \<not> is_dispatch x) d = d"
  by (simp add: list_all_iff)

lemma after_dispatch_quiet:
  "list_all (\<lambda>x. \<not> is_dispatch x) d \<Longrightarrow> after_dispatch k uid d = []"
  by (rule after_dispatch_absent) (auto simp: list_all_iff)

lemma send_live_notification_quiet:
  "list_all (\<lambda>x. \<not> is_dispatch x) (snd (send_live_notification p sent uid s info))"
  by (auto simp: send_live_notification_def Let_def split: option.splits raised.splits)

lemma send_end_notification_quiet:
  "list_all (\<lambda>x. \<not> is_dispatch x) (snd (send_end_notification p sent uid s info))"
  by (auto simp: send_end_notification_def Let_def split: option.splits raised.splits)

lemma process_uid_trace_shape:
  "fst (snd (process_uid i sm uid info p)) = [] \<or>
   (\<exists>k d. fst (snd (process_uid i sm uid info p)) = Dispatch k uid # d \<and>
          list_all (\<lambda>x. \<not> is_dispatch x) d)"
  using send_live_notification_quiet send_end_notification_quiet
  by (auto simp: process_uid_unfold Let_def split: option.splits)

lemma process_items_trace_head:
  "fst (snd (process_items i sm k items p)) = [] \<or>
   is_dispatch (hd (fst (snd (process_items i sm k items p))))"
proof (induction items arbitrary: p k)
  case Nil
  then show ?case by simp
next
  case (Cons a items)
  obtain u info where a: "a = (u, info)" by (cases a)
  from process_uid_trace_shape [of i sm u info p]
  show ?case
    unfolding a process_items_Cons
    using Cons.IH [of "Suc k" "record_status (now i) u (current_status_of sm u) p"]
    by auto
qed

lemma process_uid_trace_cong:
  assumes "enable_notifications q = enable_notifications p"
      and "enable_end_notifications q = enable_end_notifications p"
      and "live_status_cache q uid = live_status_cache p uid"
  shows "fst (snd (process_uid i sm uid info q)) = fst (snd (process_uid i sm uid info p))"
proof -
  have l: "send_live_notification q sent uid s info = send_live_notification p sent uid s info" for sent s
    using assms(1) by (simp add: send_live_notification_def)
  have e: "send_end_notification q sent uid s info = send_end_notification p sent uid s info" for sent s
    using assms(1,2) by (simp add: send_end_notification_def)
  have prev: "previous_status_of q uid = previous_status_of p uid"
    using assms(3) by (simp add: previous_status_of_def)
  show ?thesis
    by (simp add: process_uid_unfold Let_def l e prev split: option.splits)
qed

lemma process_items_segment:
  assumes "distinct (map fst items)" "(uid, info) \<in> set items"
      and "fst (process_items i sm n items p) = None"
  shows "after_dispatch k uid (fst (snd (process_items i sm n items p))) =
         after_dispatch k uid (fst (snd (process_uid i sm uid info p)))"
  using assms
proof (induction items arbitrary: p n)
  case Nil
  then show ?case by simp
next
  case (Cons a items)
  obtain u inf' where a: "a = (u, inf')" by (cases a)
  define p1 where "p1 = record_status (now i) u (current_status_of sm u) p"
  from Cons.prems(3) have nf: "fault i \<noteq> Some n" and r1: "fst (process_uid i sm u inf' p) = None"
    and r2: "fst (process_items i sm (Suc n) items p1) = None"
    unfolding a process_items_Cons p1_def by (auto split: if_splits)
  define tu where "tu = fst (snd (process_uid i sm u inf' p))"
  define tr where "tr = fst (snd (process_items i sm (Suc n) items p1))"
  have eq: "fst (snd (process_items i sm n (a # items) p)) = tu @ tr"
    unfolding a process_items_Cons p1_def [symmetric] tu_def tr_def using nf r1 r2 by simp
  have head: "tr = [] \<or> is_dispatch (hd tr)"
    unfolding tr_def by (rule process_items_trace_head)
  show ?case
  proof (cases "uid = u")
    case True
    with Cons.prems(1,2) a have same: "inf' = info" and absent: "uid \<notin> fst ` set items"
      by (auto simp: image_iff)
    from process_items_frame [OF absent, of i sm "Suc n" p1]
    have none: "Dispatch k uid \<notin> set tr" unfolding tr_def by simp
    have tu: "tu = fst (snd (process_uid i sm uid info p))"
      by (simp add: tu_def True same)
    from process_uid_trace_shape [of i sm uid info p] consider
        (empty) "tu = []"
      | (call) k' d where "tu = Dispatch k' uid # d" "list_all (\<lambda>x. \<not> is_dispatch x) d"
      unfolding tu by blast
    then have "after_dispatch k uid (tu @ tr) = after_dispatch k uid tu"
    proof cases
      case empty
      with none show ?thesis by (simp add: after_dispatch_absent)
    next
      case call
      show ?thesis
      proof (cases "k' = k")
        case True
        with call head show ?thesis
          by (simp add: takeWhile_segment takeWhile_quiet)
      next
        case False
        from call(2) have "Dispatch k uid \<notin> set d" by (auto simp: list_all_iff)
        with none have "Dispatch k uid \<notin> set (d @ tr)" by simp
        with False call(1) \<open>Dispatch k uid \<notin> set d\<close> show ?thesis
          by (simp add: after_dispatch_absent)
      qed
    qed
    then show ?thesis unfolding eq tu .
  next
    case False
    with Cons.prems(2) a have mem: "(uid, info) \<in> set items" by auto
    from Cons.prems(1) have d: "distinct (map fst items)" by simp
    have quiet: "Dispatch k uid \<notin> set tu"
      unfolding tu_def using False by (simp add: process_uid_dispatch)
    have cong: "fst (snd (process_uid i sm uid info p1)) = fst (snd (process_uid i sm uid info p))"
      using record_status_other [OF False, of "now i" "current_status_of sm u" p]
      by (intro process_uid_trace_cong) (simp_all add: p1_def record_status_globals)
    from Cons.IH [OF d mem r2] show ?thesis
      unfolding eq after_dispatch_append [OF quiet] tr_def cong .
  qed
qed

lemma process_uid_sent:
  "notification_sent k uid (fst (snd (process_uid i sm uid info p))) \<longleftrightarrow>
     (k = Live \<and> went_live (current_status_of sm uid) (previous_status_of p uid) \<and>
        enable_notifications p \<and> origin_set (unified_msg_origin info)) \<or>
     (k = End \<and> went_offline (current_status_of sm uid) (previous_status_of p uid) \<and>
        enable_notifications p \<and> enable_end_notifications p \<and>
        origin_set (unified_msg_origin info))"
proof -
  have l: "list_ex is_send (takeWhile (\<lambda>x. \<not> is_dispatch x) (snd (send_live_notification p sent uid s info)))
            \<longleftrightarrow> enable_notifications p \<and> origin_set (unified_msg_origin info)" for sent s
    by (auto simp: send_live_notification_def Let_def split: option.splits raised.splits)
  have e: "list_ex is_send (takeWhile (\<lambda>x. \<not> is_dispatch x) (snd (send_end_notification p sent uid s info)))
            \<longleftrightarrow> enable_notifications p \<and> enable_end_notifications p \<and>
                origin_set (unified_msg_origin info)" for sent s
    by (auto simp: send_end_notification_def Let_def split: option.splits raised.splits)
  have x: "\<not> (went_live cs prev \<and> went_offline cs prev)" for cs prev
    by (auto simp: went_live_def went_offline_def)
  note q = after_dispatch_quiet [OF send_live_notification_quiet]
           after_dispatch_quiet [OF send_end_notification_quiet]
  show ?thesis
    using x [of "current_status_of sm uid" "previous_status_of p uid"]
    by (cases k) (auto simp: notification_sent_def process_uid_unfold Let_def l e q split: option.splits)
qed

lemma cycle_body_sent:
  assumes "distinct (map fst (monitored_uids p))" "(uid, info) \<in> set (monitored_uids p)"
      and "fst (cycle_body b i p) = None"
  shows "notification_sent k uid (fst (snd (cycle_body b i p))) \<longleftrightarrow>
           (k = Live \<and> went_live (cycle_status b i p uid) (previous_status_of p uid) \<and>
              enable_notifications p \<and> origin_set (unified_msg_origin info)) \<or>
           (k = End \<and> went_offline (cycle_status b i p uid) (previous_status_of p uid) \<and>
              enable_notifications p \<and> enable_end_notifications p \<and>
              origin_set (unified_msg_origin info))"
proof -
  from assms(3) obtain r where r: "fetched i = Some r"
    by (cases "fetched i") (auto simp: cycle_body_cancelled)
  define sm where "sm = snd (get_live_status_batch b (eligible_uids (now i) p (monitored_uids p)) r (last_rate_limited p))"
  define q where "q = p\<lparr>last_rate_limited :=
            fst (get_live_status_batch b (eligible_uids (now i) p (monitored_uids p)) r (last_rate_limited p))\<rparr>"
  have cb: "cycle_body b i p = process_items i sm 0 (monitored_uids p) q"
    unfolding sm_def q_def by (rule cycle_body_fetched [OF r])
  have cs: "cycle_status b i p uid = current_status_of sm uid"
    by (simp add: cycle_status_def r sm_def)
  have q: "previous_status_of q uid = previous_status_of p uid"
    "enable_notifications q = enable_notifications p"
    "enable_end_notifications q = enable_end_notifications p"
    by (simp_all add: q_def previous_status_of_def)
  from assms(3) have fin: "fst (process_items i sm 0 (monitored_uids p) q) = None"
    by (simp add: cb)
  show ?thesis
    unfolding cb cs notification_sent_def process_items_segment [OF assms(1,2) fin]
    using process_uid_sent [of k uid i sm info q]
    by (simp add: notification_sent_def q)
qed

lemma notification_sent_absent:
  "Dispatch k uid \<notin> set tr \<Longrightarrow> \<not> notification_sent k uid tr"
  by (simp add: notification_sent_def after_dispatch_absent)

text \<open>More sample passes, evaluated.\<close>

lemmas sample_defs2 =
  sample_defs sample_muted_def sample_input3_def sample_after3_def sample_live8_def
  sample_live8_muted_def unknown_up_def

lemma sample_status_map3:
  "get_live_status_batch sample_builtins [''7'', ''8''] (Response 200 (Some sample_body_off)) False =
     (False, [''7'' \<mapsto> [(''live_status'', JInt 0), (''room_id'', JInt 999), (''title'', JStr ''t''), (''uname'', JStr ''Alice'')],
              ''8'' \<mapsto> zero_status])"
  by (simp add: get_live_status_batch_def fetch_def sample_body_off_def sample_builtins_def
        dict_get_def dict_get_default_def status_of_def)

lemma sample_cycle_muted:
  "cycle_body sample_builtins sample_input sample_muted =
     (None, [Dispatch Live ''7'', Log INFO], sample_after\<lparr>enable_notifications := False\<rparr>)"
  by (simp add: sample_defs2 sample_status_map2 fun_upd_twist)

lemma sample_cycle3:
  "cycle_body sample_builtins sample_input3 sample_after =
     (None,
      [Dispatch End ''7'', SendMessage ''group:1'' (EndMessage (JStr ''Alice'')), Log INFO],
      sample_after3)"
  by (simp add: sample_defs2 sample_status_map3 fun_upd_twist)

lemma sample_cycle_live8:
  "cycle_body sample_builtins sample_input2 sample_live8 =
     (None,
      [Dispatch End ''8'', SendMessage ''group:1'' (EndMessage (JStr ''unknown UP'')), Log INFO],
      sample_after2)"
  by (simp add: sample_defs2 sample_status_map fun_upd_twist)

lemma sample_cycle_live8_muted:
  "cycle_body sample_builtins sample_input2 sample_live8_muted =
     (None, [Dispatch End ''8''], sample_after2\<lparr>enable_end_notifications := False\<rparr>)"
  by (simp add: sample_defs2 sample_status_map fun_upd_twist)

lemma sample_entries:
  "(''7'', sample_entry) \<in> set (monitored_uids sample_plugin)"
  "(''7'', sample_entry) \<in> set (monitored_uids sample_after)"
  "(''8'', sample_entry8) \<in> set (monitored_uids sample_live8)"
  "distinct (map fst (monitored_uids sample_live8))"
  "origin_set (unified_msg_origin sample_entry)"
  "origin_set (unified_msg_origin sample_entry8)"
  by (simp_all add: sample_plugin_def sample_after_def sample_live8_def sample_entry_def
        sample_entry8_def)

lemma sample_status3:
  "cycle_status sample_builtins sample_input3 sample_after ''7'' =
     [(''live_status'', JInt 0), (''room_id'', JInt 999), (''title'', JStr ''t''), (''uname'', JStr ''Alice'')]"
  by (simp add: cycle_status_def sample_defs2 sample_status_map3)

text \<open>
  Claim C2, amended. In a pass that completes, for every monitored identifier: the
  went-live dispatcher is called iff the new \<open>live_status\<close> equals 1 and the cached
  previous state does not, and a went-live notification is sent iff moreover
  \<open>enable_notifications\<close> holds and the entry's \<open>unified_msg_origin\<close> is set; the
  went-offline dispatcher is called iff the cached previous state equals 1 and the
  new \<open>live_status\<close> does not, and a went-offline notification is sent iff moreover
  \<open>enable_notifications\<close> and \<open>enable_end_notifications\<close> hold and the origin is set
  (all decided on the cache as it was before the pass); the cache then holds the new
  \<open>live_status\<close>; and a later pass that starts from that cache entry and observes the
  same liveness calls neither dispatcher and sends nothing for the identifier.
\<close>

theorem transition_detection:
  assumes "distinct (map fst (monitored_uids p))" "(uid, info) \<in> set (monitored_uids p)"
      and "cycle_body b i p = (None, tr, p')"
  shows "(Dispatch Live uid \<in> set tr \<longleftrightarrow>
            py_eq_int (dict_get (cycle_status b i p uid) ''live_status'') 1 \<and>
            \<not> py_eq_int (previous_status_of p uid) 1) \<and>
         (notification_sent Live uid tr \<longleftrightarrow>
            py_eq_int (dict_get (cycle_status b i p uid) ''live_status'') 1 \<and>
            \<not> py_eq_int (previous_status_of p uid) 1 \<and>
            enable_notifications p \<and> origin_set (unified_msg_origin info)) \<and>
         (Dispatch End uid \<in> set tr \<longleftrightarrow>
            py_eq_int (previous_status_of p uid) 1 \<and>
            \<not> py_eq_int (dict_get (cycle_status b i p uid) ''live_status'') 1) \<and>
         (notification_sent End uid tr \<longleftrightarrow>
            py_eq_int (previous_status_of p uid) 1 \<and>
            \<not> py_eq_int (dict_get (cycle_status b i p uid) ''live_status'') 1 \<and>
            enable_notifications p \<and> enable_end_notifications p \<and>
            origin_set (unified_msg_origin info)) \<and>
         live_status_cache p' uid =
            Some (dict_get_default (cycle_status b i p uid) ''live_status'' (JInt 0)) \<and>
         (\<forall>i2 p2 tr2 p2'.
            distinct (map fst (monitored_uids p2)) \<and> uid \<in> fst ` set (monitored_uids p2) \<and>
            live_status_cache p2 uid = live_status_cache p' uid \<and>
            cycle_body b i2 p2 = (None, tr2, p2') \<and>
            (py_eq_int (dict_get (cycle_status b i2 p2 uid) ''live_status'') 1 \<longleftrightarrow>
             py_eq_int (dict_get (cycle_status b i p uid) ''live_status'') 1)
            \<longrightarrow> Dispatch Live uid \<notin> set tr2 \<and> Dispatch End uid \<notin> set tr2 \<and>
                \<not> notification_sent Live uid tr2 \<and> \<not> notification_sent End uid tr2)"
proof -
  from assms(3) have fin: "fst (cycle_body b i p) = None"
    and tr: "tr = fst (snd (cycle_body b i p))" and p': "p' = snd (snd (cycle_body b i p))"
    by simp_all
  from assms(2) have mem: "uid \<in> fst ` set (monitored_uids p)" by force
  note at = cycle_body_at [OF assms(1) mem fin, folded tr p']
  note sent = cycle_body_sent [OF assms(1,2) fin, folded tr]
  have first: "Dispatch Live uid \<in> set tr \<longleftrightarrow>
            py_eq_int (dict_get (cycle_status b i p uid) ''live_status'') 1 \<and>
            \<not> py_eq_int (previous_status_of p uid) 1"
    using at by (simp add: went_live_def)
  have first_sent: "notification_sent Live uid tr \<longleftrightarrow>
            py_eq_int (dict_get (cycle_status b i p uid) ''live_status'') 1 \<and>
            \<not> py_eq_int (previous_status_of p uid) 1 \<and>
            enable_notifications p \<and> origin_set (unified_msg_origin info)"
    using sent [of Live] by (simp add: went_live_def)
  have second: "Dispatch End uid \<in> set tr \<longleftrightarrow>
            py_eq_int (previous_status_of p uid) 1 \<and>
            \<not> py_eq_int (dict_get (cycle_status b i p uid) ''live_status'') 1"
    using at by (simp add: went_offline_def)
  have second_sent: "notification_sent End uid tr \<longleftrightarrow>
            py_eq_int (previous_status_of p uid) 1 \<and>
            \<not> py_eq_int (dict_get (cycle_status b i p uid) ''live_status'') 1 \<and>
            enable_notifications p \<and> enable_end_notifications p \<and>
            origin_set (unified_msg_origin info)"
    using sent [of End] by (simp add: went_offline_def)
  have cache: "live_status_cache p' uid =
            Some (dict_get_default (cycle_status b i p uid) ''live_status'' (JInt 0))"
    using at by simp
  have next_pass: "Dispatch Live uid \<notin> set tr2 \<and> Dispatch End uid \<notin> set tr2 \<and>
                \<not> notification_sent Live uid tr2 \<and> \<not> notification_sent End uid tr2"
    if h: "distinct (map fst (monitored_uids p2))" "uid \<in> fst ` set (monitored_uids p2)"
       "live_status_cache p2 uid = live_status_cache p' uid"
       "cycle_body b i2 p2 = (None, tr2, p2')"
       "py_eq_int (dict_get (cycle_status b i2 p2 uid) ''live_status'') 1 \<longleftrightarrow>
        py_eq_int (dict_get (cycle_status b i p uid) ''live_status'') 1"
    for i2 p2 tr2 p2'
  proof -
    from h(4) have fin2: "fst (cycle_body b i2 p2) = None"
      and tr2: "tr2 = fst (snd (cycle_body b i2 p2))" by simp_all
    have prev: "py_eq_int (previous_status_of p2 uid) 1 \<longleftrightarrow>
                py_eq_int (dict_get (cycle_status b i p uid) ''live_status'') 1"
      using h(3) cache by (simp add: previous_status_of_def live_default_same)
    from cycle_body_at [OF h(1,2) fin2, folded tr2] prev h(5)
    have "Dispatch Live uid \<notin> set tr2 \<and> Dispatch End uid \<notin> set tr2"
      by (simp add: went_live_def went_offline_def)
    then show ?thesis by (simp add: notification_sent_absent)
  qed
  from first first_sent second second_sent cache next_pass show ?thesis by blast
qed

text \<open>
  Claim C2 as stated fails: with notifications disabled, identifier 7 goes live (new
  \<open>live_status\<close> 1, nothing cached), the dispatcher is called and no notification is
  sent.
\<close>

theorem transition_detection_counterexample:
  "py_eq_int (dict_get (cycle_status sample_builtins sample_input sample_muted ''7'') ''live_status'') 1 \<and>
   \<not> py_eq_int (previous_status_of sample_muted ''7'') 1 \<and>
   fst (cycle_body sample_builtins sample_input sample_muted) = None \<and>
   fst (snd (cycle_body sample_builtins sample_input sample_muted)) = [Dispatch Live ''7'', Log INFO] \<and>
   \<not> notification_sent Live ''7'' [Dispatch Live ''7'', Log INFO]"
proof -
  have "cycle_status sample_builtins sample_input sample_muted ''7'' =
     [(''live_status'', JInt 1), (''room_id'', JInt 999), (''title'', JStr ''t''), (''uname'', JStr ''Alice'')]"
    by (simp add: cycle_status_def sample_defs2 sample_status_map2)
  moreover have "\<not> py_eq_int (previous_status_of sample_muted ''7'') 1"
    by (simp add: previous_status_of_def sample_muted_def sample_plugin_def)
  moreover have "\<not> notification_sent Live ''7'' [Dispatch Live ''7'', Log INFO]"
    by (simp add: notification_sent_def)
  ultimately show ?thesis
    by (simp add: sample_cycle_muted dict_get_def)
qed

theorem transition_detection_witness:
  "distinct (map fst (monitored_uids sample_plugin)) \<and>
   (''7'', sample_entry) \<in> set (monitored_uids sample_plugin) \<and>
   cycle_body sample_builtins sample_input sample_plugin =
     (None,
      [Dispatch Live ''7'',
       SendMessage ''group:1'' (LiveMessage (JStr ''Alice'') (JStr ''t'') (JInt 999)),
       Log INFO],
      sample_after) \<and>
   py_eq_int (dict_get (cycle_status sample_builtins sample_input sample_plugin ''7'') ''live_status'') 1 \<and>
   \<not> py_eq_int (previous_status_of sample_plugin ''7'') 1 \<and>
   enable_notifications sample_plugin \<and> enable_end_notifications sample_plugin \<and>
   origin_set (unified_msg_origin sample_entry) \<and>
   notification_sent Live ''7''
     [Dispatch Live ''7'',
      SendMessage ''group:1'' (LiveMessage (JStr ''Alice'') (JStr ''t'') (JInt 999)),
      Log INFO] \<and>
   live_status_cache sample_after ''7'' = Some (JInt 1) \<and>
   distinct (map fst (monitored_uids sample_after)) \<and>
   (''7'', sample_entry) \<in> set (monitored_uids sample_after) \<and>
   cycle_body sample_builtins sample_input2 sample_after = (None, [], sample_after2) \<and>
   py_eq_int (dict_get (cycle_status sample_builtins sample_input2 sample_after ''7'') ''live_status'') 1 \<and>
   \<not> notification_sent Live ''7'' [] \<and>
   cycle_body sample_builtins sample_input3 sample_after =
     (None,
      [Dispatch End ''7'', SendMessage ''group:1'' (EndMessage (JStr ''Alice'')), Log INFO],
      sample_after3) \<and>
   py_eq_int (previous_status_of sample_after ''7'') 1 \<and>
   \<not> py_eq_int (dict_get (cycle_status sample_builtins sample_input3 sample_after ''7'') ''live_status'') 1 \<and>
   Dispatch End ''7'' \<in> set
     [Dispatch End ''7'', SendMessage ''group:1'' (EndMessage (JStr ''Alice'')), Log INFO] \<and>
   notification_sent End ''7''
     [Dispatch End ''7'', SendMessage ''group:1'' (EndMessage (JStr ''Alice'')), Log INFO] \<and>
   live_status_cache sample_after3 ''7'' = Some (JInt 0)"
proof -
  note t = transition_detection [OF sample_keys(1) sample_entries(1) sample_cycle]
  note u = transition_detection [OF sample_keys(2) sample_entries(2) sample_cycle3]
  have flags: "enable_notifications sample_plugin" "enable_end_notifications sample_plugin"
    "enable_notifications sample_after" "enable_end_notifications sample_after"
    by (simp_all add: sample_plugin_def sample_after_def)
  have live: "py_eq_int (dict_get (cycle_status sample_builtins sample_input sample_plugin ''7'') ''live_status'') 1"
    by (simp add: sample_statuses dict_get_def)
  have prev: "\<not> py_eq_int (previous_status_of sample_plugin ''7'') 1"
    by (simp add: previous_status_of_def sample_plugin_def)
  from t live prev flags sample_entries(5)
  have sent: "notification_sent Live ''7''
     [Dispatch Live ''7'',
      SendMessage ''group:1'' (LiveMessage (JStr ''Alice'') (JStr ''t'') (JInt 999)),
      Log INFO]"
    by blast
  have cache: "live_status_cache sample_after ''7'' = Some (JInt 1)"
    using t by (simp add: sample_statuses dict_get_default_def)
  have live2: "py_eq_int (dict_get (cycle_status sample_builtins sample_input2 sample_after ''7'') ''live_status'') 1"
    by (simp add: sample_statuses dict_get_def)
  from t have "distinct (map fst (monitored_uids sample_after)) \<and>
      ''7'' \<in> fst ` set (monitored_uids sample_after) \<and>
      live_status_cache sample_after ''7'' = live_status_cache sample_after ''7'' \<and>
      cycle_body sample_builtins sample_input2 sample_after = (None, [], sample_after2) \<and>
      (py_eq_int (dict_get (cycle_status sample_builtins sample_input2 sample_after ''7'') ''live_status'') 1 \<longleftrightarrow>
       py_eq_int (dict_get (cycle_status sample_builtins sample_input sample_plugin ''7'') ''live_status'') 1)
      \<longrightarrow> \<not> notification_sent Live ''7'' []"
    by blast
  with live live2 sample_keys sample_cycle2 have quiet: "\<not> notification_sent Live ''7'' []"
    by simp
  have prev3: "py_eq_int (previous_status_of sample_after ''7'') 1"
    by (simp add: previous_status_of_def sample_after_def)
  have off3: "\<not> py_eq_int (dict_get (cycle_status sample_builtins sample_input3 sample_after ''7'') ''live_status'') 1"
    by (simp add: sample_status3 dict_get_def)
  from u prev3 off3 have call3: "Dispatch End ''7'' \<in> set
     [Dispatch End ''7'', SendMessage ''group:1'' (EndMessage (JStr ''Alice'')), Log INFO]"
    by blast
  from u prev3 off3 flags sample_entries(5) have sent3: "notification_sent End ''7''
     [Dispatch End ''7'', SendMessage ''group:1'' (EndMessage (JStr ''Alice'')), Log INFO]"
    by blast
  have cache3: "live_status_cache sample_after3 ''7'' = Some (JInt 0)"
    using u by (simp add: sample_status3 dict_get_default_def)
  show ?thesis
    by (intro conjI)
       (fact sample_keys(1) sample_keys(2) sample_entries(1) sample_entries(2) sample_entries(5)
          sample_cycle sample_cycle2 sample_cycle3 live prev flags(1) flags(2) sent cache live2
          quiet prev3 off3 call3 sent3 cache3)+
qed

text \<open>
  Claim C3. In a pass that completes, for every monitored identifier: when its
  status is empty, its count is the old count plus one and its skip deadline is
  \<open>now + min(300, 30 * count)\<close>; when its status is not empty, the count and the skip
  deadline are both removed.
\<close>

theorem backoff_bookkeeping:
  assumes "distinct (map fst (monitored_uids p))" "uid \<in> fst ` set (monitored_uids p)"
      and "cycle_body b i p = (None, tr, p')"
  shows "(is_empty (cycle_status b i p uid) \<longrightarrow>
            uid_error_counts p' uid = Some (error_count_of p uid + 1) \<and>
            uid_skip_until p' uid = Some (now i + of_int (min 300 (30 * (error_count_of p uid + 1))))) \<and>
         (\<not> is_empty (cycle_status b i p uid) \<longrightarrow>
            uid_error_counts p' uid = None \<and> uid_skip_until p' uid = None)"
proof -
  from assms(3) have fin: "fst (cycle_body b i p) = None"
    and p': "p' = snd (snd (cycle_body b i p))"
    by simp_all
  from cycle_body_at [OF assms(1,2) fin, folded p'] show ?thesis by simp
qed

theorem backoff_bookkeeping_witness:
  "distinct (map fst (monitored_uids sample_plugin)) \<and>
   ''7'' \<in> fst ` set (monitored_uids sample_plugin) \<and>
   ''8'' \<in> fst ` set (monitored_uids sample_plugin) \<and>
   fst (cycle_body sample_builtins sample_input sample_plugin) = None \<and>
   snd (snd (cycle_body sample_builtins sample_input sample_plugin)) = sample_after \<and>
   is_empty (cycle_status sample_builtins sample_input sample_plugin ''8'') \<and>
   uid_error_counts sample_after ''8'' = Some 1 \<and>
   uid_skip_until sample_after ''8'' = Some 130 \<and>
   \<not> is_empty (cycle_status sample_builtins sample_input sample_plugin ''7'') \<and>
   uid_error_counts sample_after ''7'' = None \<and>
   uid_skip_until sample_after ''7'' = None"
proof -
  have e8: "is_empty (cycle_status sample_builtins sample_input sample_plugin ''8'')"
    by (simp add: sample_statuses is_empty_def zero_status_def dict_get_def dict_get_default_def)
  have e7: "\<not> is_empty (cycle_status sample_builtins sample_input sample_plugin ''7'')"
    by (simp add: sample_statuses is_empty_def dict_get_def dict_get_default_def)
  have c: "error_count_of sample_plugin ''8'' = 0"
    by (simp add: error_count_of_def sample_plugin_def)
  from backoff_bookkeeping [OF sample_keys(1) sample_keys(4) sample_cycle] e8 c
  have a: "uid_error_counts sample_after ''8'' = Some 1 \<and> uid_skip_until sample_after ''8'' = Some 130"
    by (simp add: sample_input_def)
  from backoff_bookkeeping [OF sample_keys(1) sample_keys(3) sample_cycle] e7
  have b: "uid_error_counts sample_after ''7'' = None \<and> uid_skip_until sample_after ''7'' = None"
    by simp
  from a b e7 e8 sample_keys show ?thesis by (simp add: sample_cycle)
qed

text \<open>
  Claim C10, amended. In a pass that completes, a monitored identifier whose skip
  deadline has not passed is not among the fetched identifiers, and is processed
  with the default status: its cache entry becomes 0; the went-offline dispatcher
  is called iff the cached state was 1, and a went-offline notification is sent iff
  moreover \<open>enable_notifications\<close> and \<open>enable_end_notifications\<close> hold and the
  entry's \<open>unified_msg_origin\<close> is set; the went-live dispatcher is not called; its
  count grows by one and its skip deadline is set to \<open>now + min(300, 30 * count)\<close>,
  which is later than a deadline an earlier pass had set with the old count.
\<close>

theorem skipped_identifier_processed:
  assumes "distinct (map fst (monitored_uids p))" "(uid, info) \<in> set (monitored_uids p)"
      and "uid_skip_until p uid = Some d" "now i < d"
      and "cycle_body b i p = (None, tr, p')"
  shows "uid \<notin> set (eligible_uids (now i) p (monitored_uids p)) \<and>
         cycle_status b i p uid = [(''live_status'', JInt 0)] \<and>
         live_status_cache p' uid = Some (JInt 0) \<and>
         Dispatch Live uid \<notin> set tr \<and>
         \<not> notification_sent Live uid tr \<and>
         (Dispatch End uid \<in> set tr \<longleftrightarrow> py_eq_int (previous_status_of p uid) 1) \<and>
         (notification_sent End uid tr \<longleftrightarrow>
            py_eq_int (previous_status_of p uid) 1 \<and>
            enable_notifications p \<and> enable_end_notifications p \<and>
            origin_set (unified_msg_origin info)) \<and>
         uid_error_counts p' uid = Some (error_count_of p uid + 1) \<and>
         uid_skip_until p' uid = Some (now i + of_int (min 300 (30 * (error_count_of p uid + 1)))) \<and>
         (\<forall>t. d = t + of_int (min 300 (30 * error_count_of p uid)) \<and> t < now i \<longrightarrow>
              d < now i + of_int (min 300 (30 * (error_count_of p uid + 1))))"
proof -
  from assms(5) have fin: "fst (cycle_body b i p) = None"
    and tr: "tr = fst (snd (cycle_body b i p))" and p': "p' = snd (snd (cycle_body b i p))"
    by simp_all
  from assms(2) have mem: "uid \<in> fst ` set (monitored_uids p)" by force
  have skipped: "uid \<notin> set (eligible_uids (now i) p (monitored_uids p))"
    using assms(3,4) by (simp add: eligible_uids_def)
  from fin obtain r where r: "fetched i = Some r"
    by (cases "fetched i") (auto simp: cycle_body_cancelled)
  have "uid \<notin> dom (snd (get_live_status_batch b (eligible_uids (now i) p (monitored_uids p)) r (last_rate_limited p)))"
    using skipped by (simp add: dom_get_live_status_batch)
  then have cs: "cycle_status b i p uid = [(''live_status'', JInt 0)]"
    by (auto simp: cycle_status_def r current_status_of_def dom_def)
  have e: "is_empty [(''live_status'', JInt 0)]"
    by (simp add: is_empty_def dict_get_def dict_get_default_def)
  note at = cycle_body_at [OF assms(1) mem fin, folded tr p', unfolded cs]
  note sent = cycle_body_sent [OF assms(1,2) fin, folded tr, unfolded cs]
  have live: "\<not> notification_sent Live uid tr"
    using sent [of Live] by (simp add: went_live_def dict_get_def)
  have fin_sent: "notification_sent End uid tr \<longleftrightarrow>
            py_eq_int (previous_status_of p uid) 1 \<and>
            enable_notifications p \<and> enable_end_notifications p \<and>
            origin_set (unified_msg_origin info)"
    using sent [of End] by (simp add: went_offline_def dict_get_def)
  have ext: "d < now i + of_int (min 300 (30 * (error_count_of p uid + 1)))"
    if "d = t + of_int (min 300 (30 * error_count_of p uid)) \<and> t < now i" for t
  proof -
    have "min 300 (30 * error_count_of p uid) \<le> min 300 (30 * (error_count_of p uid + 1))"
      by simp
    then have "(of_int (min 300 (30 * error_count_of p uid)) :: real)
                 \<le> of_int (min 300 (30 * (error_count_of p uid + 1)))"
      by (simp only: of_int_le_iff)
    with that show ?thesis by linarith
  qed
  from at e skipped cs ext live fin_sent show ?thesis
    by (simp add: went_live_def went_offline_def dict_get_def dict_get_default_def)
qed

text \<open>
  Claim C10 as stated fails: with end notifications disabled, the skipped
  identifier 8, cached as live, has its dispatcher called and no went-offline
  notification is sent.
\<close>

theorem skipped_identifier_counterexample:
  "(''8'', sample_entry8) \<in> set (monitored_uids sample_live8_muted) \<and>
   uid_skip_until sample_live8_muted ''8'' = Some 130 \<and>
   now sample_input2 < 130 \<and>
   py_eq_int (previous_status_of sample_live8_muted ''8'') 1 \<and>
   fst (cycle_body sample_builtins sample_input2 sample_live8_muted) = None \<and>
   fst (snd (cycle_body sample_builtins sample_input2 sample_live8_muted)) = [Dispatch End ''8''] \<and>
   \<not> notification_sent End ''8'' [Dispatch End ''8'']"
proof -
  have "(''8'', sample_entry8) \<in> set (monitored_uids sample_live8_muted)"
    "uid_skip_until sample_live8_muted ''8'' = Some 130"
    "py_eq_int (previous_status_of sample_live8_muted ''8'') 1"
    by (simp_all add: sample_live8_muted_def sample_live8_def sample_after_def sample_plugin_def
          sample_entry8_def previous_status_of_def)
  moreover have "now sample_input2 < 130"
    by (simp add: sample_input2_def)
  moreover have "\<not> notification_sent End ''8'' [Dispatch End ''8'']"
    by (simp add: notification_sent_def)
  ultimately show ?thesis
    by (simp add: sample_cycle_live8_muted)
qed

theorem skipped_identifier_processed_witness:
  "distinct (map fst (monitored_uids sample_live8)) \<and>
   (''8'', sample_entry8) \<in> set (monitored_uids sample_live8) \<and>
   uid_skip_until sample_live8 ''8'' = Some 130 \<and>
   now sample_input2 < 130 \<and>
   cycle_body sample_builtins sample_input2 sample_live8 =
     (None,
      [Dispatch End ''8'', SendMessage ''group:1'' (EndMessage (JStr ''unknown UP'')), Log INFO],
      sample_after2) \<and>
   ''8'' \<notin> set (eligible_uids (now sample_input2) sample_live8 (monitored_uids sample_live8)) \<and>
   py_eq_int (previous_status_of sample_live8 ''8'') 1 \<and>
   enable_notifications sample_live8 \<and> enable_end_notifications sample_live8 \<and>
   origin_set (unified_msg_origin sample_entry8) \<and>
   Dispatch End ''8'' \<in> set
     [Dispatch End ''8'', SendMessage ''group:1'' (EndMessage (JStr ''unknown UP'')), Log INFO] \<and>
   notification_sent End ''8''
     [Dispatch End ''8'', SendMessage ''group:1'' (EndMessage (JStr ''unknown UP'')), Log INFO] \<and>
   live_status_cache sample_after2 ''8'' = Some (JInt 0) \<and>
   uid_error_counts sample_after2 ''8'' = Some 2 \<and>
   uid_skip_until sample_after2 ''8'' = Some 180 \<and>
   (130::real) = 100 + of_int (min 300 (30 * error_count_of sample_live8 ''8'')) \<and>
   (100::real) < now sample_input2 \<and>
   (130::real) < now sample_input2 + of_int (min 300 (30 * (error_count_of sample_live8 ''8'' + 1)))"
proof -
  have s: "uid_skip_until sample_live8 ''8'' = Some 130"
    by (simp add: sample_live8_def sample_after_def)
  have n: "now sample_input2 < 130" by (simp add: sample_input2_def)
  have c: "error_count_of sample_live8 ''8'' = 1"
    by (simp add: error_count_of_def sample_live8_def sample_after_def)
  have t: "now sample_input2 = 120" by (simp add: sample_input2_def)
  have prev: "py_eq_int (previous_status_of sample_live8 ''8'') 1"
    by (simp add: previous_status_of_def sample_live8_def)
  have flags: "enable_notifications sample_live8" "enable_end_notifications sample_live8"
    by (simp_all add: sample_live8_def sample_after_def sample_plugin_def)
  note th = skipped_identifier_processed [OF sample_entries(4) sample_entries(3) s n sample_cycle_live8]
  from th have skipped: "''8'' \<notin> set (eligible_uids (now sample_input2) sample_live8 (monitored_uids sample_live8))"
    by blast
  from th prev have call: "Dispatch End ''8'' \<in> set
     [Dispatch End ''8'', SendMessage ''group:1'' (EndMessage (JStr ''unknown UP'')), Log INFO]"
    by blast
  from th prev flags sample_entries(6) have sent: "notification_sent End ''8''
     [Dispatch End ''8'', SendMessage ''group:1'' (EndMessage (JStr ''unknown UP'')), Log INFO]"
    by blast
  from th have cache: "live_status_cache sample_after2 ''8'' = Some (JInt 0)" by blast
  from th c have cnt: "uid_error_counts sample_after2 ''8'' = Some 2" by simp
  from th c t have dl: "uid_skip_until sample_after2 ''8'' = Some 180" by simp
  have e1: "(130::real) = 100 + of_int (min 300 (30 * error_count_of sample_live8 ''8''))"
    by (simp add: c)
  have e2: "(100::real) < now sample_input2" by (simp add: t)
  from th have "(130::real) = 100 + of_int (min 300 (30 * error_count_of sample_live8 ''8'')) \<and> 100 < now sample_input2 \<longrightarrow>
     (130::real) < now sample_input2 + of_int (min 300 (30 * (error_count_of sample_live8 ''8'' + 1)))"
    by blast
  with e1 e2 have e3: "(130::real) < now sample_input2 + of_int (min 300 (30 * (error_count_of sample_live8 ''8'' + 1)))"
    by blast
  show ?thesis
    by (intro conjI)
       (fact sample_entries(4) sample_entries(3) s n sample_cycle_live8 skipped prev flags
          sample_entries(6) call sent cache cnt dl e1 e2 e3)+
qed

section \<open>Properties of the Notification Dispatcher\<close>

lemma process_items_deliver:
  assumes "\<forall>u. deliver i u \<noteq> Some CancelledError" "\<forall>u. deliver j u \<noteq> Some CancelledError"
      and "now j = now i" "fault j = fault i"
  shows "fst (process_items i sm k items p) = fst (process_items j sm k items p) \<and>
         snd (snd (process_items i sm k items p)) = snd (snd (process_items j sm k items p))"
proof (induction items arbitrary: p k)
  case Nil
  then show ?case by simp
next
  case (Cons a items)
  obtain u info where a: "a = (u, info)" by (cases a)
  have ri: "fst (process_uid i sm u info p) = None" using assms(1) by (simp add: process_uid_returns)
  have rj: "fst (process_uid j sm u info p) = None" using assms(2) by (simp add: process_uid_returns)
  show ?case
    unfolding a process_items_Cons using ri rj assms(3,4) Cons.IH by simp
qed

text \<open>
  Claim C8. \<open>send_live_notification\<close> calls \<open>send_message\<close> only when
  \<open>enable_notifications\<close> holds and the entry's \<open>unified_msg_origin\<close> is a non-empty
  target; \<open>send_end_notification\<close> only when \<open>enable_end_notifications\<close> holds as
  well. When \<open>send_message\<close> raises an Exception, either dispatcher returns and has
  logged an error; and a pass whose deliveries fail ends as it would have with
  every delivery succeeding, with the same state.
\<close>

theorem failure_swallowed:
  "(SendMessage target m \<in> set (snd (send_live_notification p sent uid s info)) \<longrightarrow>
      enable_notifications p \<and> unified_msg_origin info = Some target \<and> target \<noteq> []) \<and>
   (SendMessage target m \<in> set (snd (send_end_notification p sent uid s info)) \<longrightarrow>
      enable_notifications p \<and> enable_end_notifications p \<and>
      unified_msg_origin info = Some target \<and> target \<noteq> []) \<and>
   fst (send_live_notification p (Some Exception) uid s info) = None \<and>
   fst (send_end_notification p (Some Exception) uid s info) = None \<and>
   (SendMessage target m \<in> set (snd (send_live_notification p (Some Exception) uid s info)) \<longrightarrow>
      Log ERROR \<in> set (snd (send_live_notification p (Some Exception) uid s info))) \<and>
   (SendMessage target m \<in> set (snd (send_end_notification p (Some Exception) uid s info)) \<longrightarrow>
      Log ERROR \<in> set (snd (send_end_notification p (Some Exception) uid s info))) \<and>
   ((\<forall>u. deliver i u \<noteq> Some CancelledError) \<longrightarrow>
      fst (cycle_body b i p) = fst (cycle_body b (i\<lparr>deliver := (\<lambda>u. None)\<rparr>) p) \<and>
      snd (snd (cycle_body b i p)) = snd (snd (cycle_body b (i\<lparr>deliver := (\<lambda>u. None)\<rparr>) p)))"
proof -
  have live: "SendMessage target m \<in> set (snd (send_live_notification p sent uid s info)) \<longrightarrow>
      enable_notifications p \<and> unified_msg_origin info = Some target \<and> target \<noteq> []"
    by (cases "unified_msg_origin info")
       (auto simp: send_live_notification_def Let_def split: option.splits raised.splits if_splits)
  have fin: "SendMessage target m \<in> set (snd (send_end_notification p sent uid s info)) \<longrightarrow>
      enable_notifications p \<and> enable_end_notifications p \<and>
      unified_msg_origin info = Some target \<and> target \<noteq> []"
    by (cases "unified_msg_origin info")
       (auto simp: send_end_notification_def Let_def split: option.splits raised.splits if_splits)
  have r1: "fst (send_live_notification p (Some Exception) uid s info) = None"
    by (simp add: send_live_notification_raises)
  have r2: "fst (send_end_notification p (Some Exception) uid s info) = None"
    by (simp add: send_end_notification_raises)
  have l1: "SendMessage target m \<in> set (snd (send_live_notification p (Some Exception) uid s info)) \<longrightarrow>
      Log ERROR \<in> set (snd (send_live_notification p (Some Exception) uid s info))"
    by (auto simp: send_live_notification_def Let_def split: if_splits)
  have l2: "SendMessage target m \<in> set (snd (send_end_notification p (Some Exception) uid s info)) \<longrightarrow>
      Log ERROR \<in> set (snd (send_end_notification p (Some Exception) uid s info))"
    by (auto simp: send_end_notification_def Let_def split: if_splits)
  have cyc: "fst (cycle_body b i p) = fst (cycle_body b (i\<lparr>deliver := (\<lambda>u. None)\<rparr>) p) \<and>
      snd (snd (cycle_body b i p)) = snd (snd (cycle_body b (i\<lparr>deliver := (\<lambda>u. None)\<rparr>) p))"
    if nc: "\<forall>u. deliver i u \<noteq> Some CancelledError"
  proof (cases "fetched i")
    case None
    then show ?thesis by (simp add: cycle_body_cancelled)
  next
    case (Some r)
    define j where "j = i\<lparr>deliver := (\<lambda>u. None)\<rparr>"
    have j: "\<forall>u. deliver j u \<noteq> Some CancelledError" "now j = now i" "fault j = fault i"
            "fetched j = Some r"
      by (simp_all add: j_def Some)
    show ?thesis
      unfolding j_def [symmetric] cycle_body_fetched [OF Some] cycle_body_fetched [OF j(4)] j(2)
      by (rule process_items_deliver [OF nc j(1,2,3)])
  qed
  from live fin r1 r2 l1 l2 cyc show ?thesis by blast
qed

lemma sample_cycle_failing:
  "cycle_body sample_builtins sample_failing sample_plugin =
     (None,
      [Dispatch Live ''7'',
       SendMessage ''group:1'' (LiveMessage (JStr ''Alice'') (JStr ''t'') (JInt 999)),
       Log ERROR],
      sample_after)"
  by (simp add: sample_defs sample_failing_def sample_status_map2 fun_upd_twist)

lemma sample_live_send:
  "send_live_notification sample_plugin (Some Exception) ''7'' zero_status sample_entry =
     (None, [SendMessage ''group:1'' (LiveMessage (JStr []) (JStr []) (JInt 0)), Log ERROR])"
  by (simp add: send_live_notification_def sample_plugin_def sample_entry_def zero_status_def
        dict_get_default_def)

lemma sample_end_send:
  "send_end_notification sample_plugin (Some Exception) ''7'' zero_status sample_entry =
     (None, [SendMessage ''group:1'' (EndMessage (JStr [])), Log ERROR])"
  by (simp add: send_end_notification_def sample_plugin_def sample_entry_def zero_status_def
        dict_get_default_def)

theorem failure_swallowed_witness:
  "SendMessage ''group:1'' (LiveMessage (JStr []) (JStr []) (JInt 0))
     \<in> set (snd (send_live_notification sample_plugin (Some Exception) ''7'' zero_status sample_entry)) \<and>
   SendMessage ''group:1'' (EndMessage (JStr []))
     \<in> set (snd (send_end_notification sample_plugin (Some Exception) ''7'' zero_status sample_entry)) \<and>
   enable_notifications sample_plugin \<and> enable_end_notifications sample_plugin \<and>
   unified_msg_origin sample_entry = Some ''group:1'' \<and>
   Log ERROR \<in> set (snd (send_live_notification sample_plugin (Some Exception) ''7'' zero_status sample_entry)) \<and>
   Log ERROR \<in> set (snd (send_end_notification sample_plugin (Some Exception) ''7'' zero_status sample_entry)) \<and>
   (\<forall>u. deliver sample_failing u \<noteq> Some CancelledError) \<and>
   fst (cycle_body sample_builtins sample_failing sample_plugin) = None \<and>
   snd (snd (cycle_body sample_builtins sample_failing sample_plugin)) = sample_after \<and>
   snd (snd (cycle_body sample_builtins (sample_failing\<lparr>deliver := (\<lambda>u. None)\<rparr>) sample_plugin)) = sample_after"
proof -
  have a: "SendMessage ''group:1'' (LiveMessage (JStr []) (JStr []) (JInt 0))
     \<in> set (snd (send_live_notification sample_plugin (Some Exception) ''7'' zero_status sample_entry))"
    by (simp add: sample_live_send)
  have b: "SendMessage ''group:1'' (EndMessage (JStr []))
     \<in> set (snd (send_end_notification sample_plugin (Some Exception) ''7'' zero_status sample_entry))"
    by (simp add: sample_end_send)
  have c: "\<forall>u. deliver sample_failing u \<noteq> Some CancelledError"
    by (simp add: sample_failing_def)
  from failure_swallowed [of "''group:1''" "LiveMessage (JStr []) (JStr []) (JInt 0)" sample_plugin "Some Exception"
              "''7''" zero_status sample_entry sample_failing sample_builtins]
       failure_swallowed [of "''group:1''" "EndMessage (JStr [])" sample_plugin "Some Exception"
              "''7''" zero_status sample_entry sample_failing sample_builtins]
       a b c
  show ?thesis by (simp add: sample_cycle_failing)
qed

section \<open>Properties of the Poll Loop Orchestrator\<close>

lemma process_items_cancelled:
  "fst (process_items i sm k items p) = Some CancelledError \<Longrightarrow>
   \<exists>u. deliver i u = Some CancelledError"
proof (induction items arbitrary: p k)
  case Nil
  then show ?case by simp
next
  case (Cons a items)
  obtain u info where a: "a = (u, info)" by (cases a)
  show ?case
  proof (cases "fst (process_uid i sm u info p)")
    case None
    with Cons.prems Cons.IH show ?thesis
      unfolding a process_items_Cons by (auto split: if_splits)
  next
    case (Some x)
    from process_uid_raises [OF this] show ?thesis by blast
  qed
qed

lemma cycle_body_cancelled_cause:
  "fst (cycle_body b i p) = Some CancelledError \<Longrightarrow>
   fetched i = None \<or> (\<exists>u. deliver i u = Some CancelledError)"
proof (cases "fetched i")
  case None
  then show ?thesis by simp
next
  case (Some r)
  assume "fst (cycle_body b i p) = Some CancelledError"
  then show ?thesis
    unfolding cycle_body_fetched [OF Some] by (auto dest: process_items_cancelled)
qed

lemma cycle_body_globals:
  "check_interval (snd (snd (cycle_body b i p))) = check_interval p \<and>
   current_interval (snd (snd (cycle_body b i p))) = current_interval p \<and>
   monitored_uids (snd (snd (cycle_body b i p))) = monitored_uids p"
proof (cases "fetched i")
  case None
  then show ?thesis by (simp add: cycle_body_cancelled)
next
  case (Some r)
  show ?thesis
    unfolding cycle_body_fetched [OF Some] by (simp add: process_items_globals)
qed

lemma cycle_body_flag:
  "fetched i = Some r \<Longrightarrow>
   last_rate_limited (snd (snd (cycle_body b i p))) =
     fst (get_live_status_batch b (eligible_uids (now i) p (monitored_uids p)) r (last_rate_limited p))"
  by (simp add: cycle_body_fetched process_items_globals)

lemma command_lookups_Nil: "command_lookups b [] fl = fl"
  by (simp add: command_lookups_def)

lemma monitor_iteration_unfold:
  "monitor_iteration b i (p, n) =
     (if monitored_uids p = [] then
        ([Sleep (check_interval p)], if sleep_cancelled i then None else Some (p, n))
      else if fst (cycle_body b i p) = Some CancelledError then (fst (snd (cycle_body b i p)), None)
      else if fst (cycle_body b i p) = Some Exception then
        (fst (snd (cycle_body b i p)) @
           [Sleep (if n + 1 \<ge> 5 then min 300 (60 * (n + 1)) else current_interval p)],
         if sleep_cancelled i then None else Some (snd (snd (cycle_body b i p)), n + 1))
      else
        (fst (snd (cycle_body b i p)) @ [Sleep (current_interval p)],
         if sleep_cancelled i then None
         else Some (snd (snd (cycle_body b i p))
                      \<lparr>last_rate_limited :=
                         command_lookups b (lookups i)
                           (last_rate_limited (snd (snd (cycle_body b i p)))),
                       current_interval :=
                         adjust_interval (check_interval p)
                           (command_lookups b (lookups i)
                              (last_rate_limited (snd (snd (cycle_body b i p)))))
                           (current_interval p)\<rparr>,
                    0)))"
proof (cases "cycle_body b i p")
  case (fields r tr p')
  with cycle_body_globals [of b i p] have g: "check_interval p' = check_interval p"
    "current_interval p' = current_interval p" by simp_all
  show ?thesis
  proof (cases r)
    case None
    with fields g show ?thesis by (simp add: monitor_iteration_def Let_def)
  next
    case (Some e)
    with fields g show ?thesis by (cases e) (simp_all add: monitor_iteration_def Let_def)
  qed
qed

lemma monitor_iteration_left:
  "snd (monitor_iteration b i (p, n)) = None \<Longrightarrow>
   sleep_cancelled i \<or> fetched i = None \<or> (\<exists>u. deliver i u = Some CancelledError)"
  using cycle_body_cancelled_cause [of b i p]
  by (auto simp: monitor_iteration_unfold split: if_splits)

lemma monitor_live_status_runs:
  "\<forall>j\<in>set inputs. \<not> sleep_cancelled j \<and> fetched j \<noteq> None \<and> (\<forall>u. deliver j u \<noteq> Some CancelledError) \<Longrightarrow>
   snd (monitor_live_status b inputs st) \<noteq> None"
proof (induction inputs arbitrary: st)
  case Nil
  then show ?case by simp
next
  case (Cons i inputs)
  obtain p n where st: "st = (p, n)" by (cases st)
  from Cons.prems have i: "\<not> sleep_cancelled i" "fetched i \<noteq> None" "\<forall>u. deliver i u \<noteq> Some CancelledError"
    by simp_all
  with monitor_iteration_left [of b i p n] obtain st' where st': "snd (monitor_iteration b i st) = Some st'"
    unfolding st by (cases "snd (monitor_iteration b i (p, n))") auto
  from Cons.prems have "\<forall>j\<in>set inputs. \<not> sleep_cancelled j \<and> fetched j \<noteq> None \<and> (\<forall>u. deliver j u \<noteq> Some CancelledError)"
    by simp
  from Cons.IH [OF this, of st'] st' show ?case
    by (cases "monitor_iteration b i st") (auto split: prod.splits)
qed

text \<open>
  Claim C7. When the try block of a pass raises an Exception, the counter grows by
  one, the loop sleeps \<open>current_interval\<close> while the counter is below 5 and
  \<open>min(300, 60 * counter)\<close> from 5 on, and goes on with the next pass; a pass that
  completes sets the counter to 0; the loop is left only when a sleep, the fetch
  or a delivery is cancelled, so over any inputs without a cancellation it is still
  running.
\<close>

theorem failure_containment:
  "(monitored_uids p \<noteq> [] \<and> fst (cycle_body b i p) = Some Exception \<longrightarrow>
      fst (monitor_iteration b i (p, n)) =
        fst (snd (cycle_body b i p)) @
          [Sleep (if n + 1 < 5 then current_interval p else min 300 (60 * (n + 1)))] \<and>
      (\<not> sleep_cancelled i \<longrightarrow>
         snd (monitor_iteration b i (p, n)) = Some (snd (snd (cycle_body b i p)), n + 1))) \<and>
   (monitored_uids p \<noteq> [] \<and> fst (cycle_body b i p) = None \<and> \<not> sleep_cancelled i \<longrightarrow>
      (\<exists>p'. snd (monitor_iteration b i (p, n)) = Some (p', 0))) \<and>
   (snd (monitor_iteration b i (p, n)) = None \<longrightarrow>
      sleep_cancelled i \<or> fetched i = None \<or> (\<exists>u. deliver i u = Some CancelledError)) \<and>
   ((\<forall>j\<in>set inputs. \<not> sleep_cancelled j \<and> fetched j \<noteq> None \<and> (\<forall>u. deliver j u \<noteq> Some CancelledError)) \<longrightarrow>
      snd (monitor_live_status b inputs (p, n)) \<noteq> None)"
proof (intro conjI impI)
  assume "monitored_uids p \<noteq> [] \<and> fst (cycle_body b i p) = Some Exception"
  then show "fst (monitor_iteration b i (p, n)) =
        fst (snd (cycle_body b i p)) @
          [Sleep (if n + 1 < 5 then current_interval p else min 300 (60 * (n + 1)))]"
    by (simp add: monitor_iteration_unfold)
next
  assume "monitored_uids p \<noteq> [] \<and> fst (cycle_body b i p) = Some Exception" "\<not> sleep_cancelled i"
  then show "snd (monitor_iteration b i (p, n)) = Some (snd (snd (cycle_body b i p)), n + 1)"
    by (simp add: monitor_iteration_unfold)
next
  assume "monitored_uids p \<noteq> [] \<and> fst (cycle_body b i p) = None \<and> \<not> sleep_cancelled i"
  then show "\<exists>p'. snd (monitor_iteration b i (p, n)) = Some (p', 0)"
    by (simp add: monitor_iteration_unfold)
next
  assume "snd (monitor_iteration b i (p, n)) = None"
  then show "sleep_cancelled i \<or> fetched i = None \<or> (\<exists>u. deliver i u = Some CancelledError)"
    by (rule monitor_iteration_left)
next
  assume "\<forall>j\<in>set inputs. \<not> sleep_cancelled j \<and> fetched j \<noteq> None \<and> (\<forall>u. deliver j u \<noteq> Some CancelledError)"
  then show "snd (monitor_live_status b inputs (p, n)) \<noteq> None"
    by (rule monitor_live_status_runs)
qed

lemma sample_faulty_cycle:
  "cycle_body sample_builtins sample_faulty sample_plugin = (Some Exception, [], sample_plugin)"
  by (simp add: sample_defs sample_faulty_def sample_status_map2)

lemma sample_faulty_iteration:
  "monitor_iteration sample_builtins sample_faulty (sample_plugin, n) =
     ([Sleep (if n + 1 \<ge> 5 then min 300 (60 * (n + 1)) else 60)], Some (sample_plugin, n + 1))"
proof -
  have "monitored_uids sample_plugin \<noteq> []" "current_interval sample_plugin = 60"
       "\<not> sleep_cancelled sample_faulty"
    by (simp_all add: sample_plugin_def sample_faulty_def sample_input_def)
  then show ?thesis
    by (simp add: monitor_iteration_unfold sample_faulty_cycle)
qed

lemma sample_faulty_run:
  "monitor_live_status sample_builtins
     [sample_faulty, sample_faulty, sample_faulty, sample_faulty, sample_faulty] (sample_plugin, 0) =
   ([Sleep 60, Sleep 60, Sleep 60, Sleep 60, Sleep 300], Some (sample_plugin, 5))"
  by (simp add: sample_faulty_iteration)

theorem failure_containment_witness:
  "monitored_uids sample_plugin \<noteq> [] \<and>
   fst (cycle_body sample_builtins sample_faulty sample_plugin) = Some Exception \<and>
   \<not> sleep_cancelled sample_faulty \<and>
   monitor_iteration sample_builtins sample_faulty (sample_plugin, 4) =
     ([Sleep 300], Some (sample_plugin, 5)) \<and>
   fst (cycle_body sample_builtins sample_input sample_plugin) = None \<and>
   \<not> sleep_cancelled sample_input \<and>
   map_option snd (snd (monitor_iteration sample_builtins sample_input (sample_plugin, 5))) = Some 0 \<and>
   snd (monitor_iteration sample_builtins sample_cancelled (sample_plugin, 0)) = None \<and>
   sleep_cancelled sample_cancelled \<and>
   fetched sample_faulty \<noteq> None \<and>
   (\<forall>u. deliver sample_faulty u \<noteq> Some CancelledError) \<and>
   monitor_live_status sample_builtins
     [sample_faulty, sample_faulty, sample_faulty, sample_faulty, sample_faulty] (sample_plugin, 0) =
   ([Sleep 60, Sleep 60, Sleep 60, Sleep 60, Sleep 300], Some (sample_plugin, 5))"
proof -
  have m: "monitored_uids sample_plugin \<noteq> []" "current_interval sample_plugin = 60"
    by (simp_all add: sample_plugin_def)
  have f: "fst (cycle_body sample_builtins sample_faulty sample_plugin) = Some Exception"
    by (simp add: sample_faulty_cycle)
  have nf: "\<not> sleep_cancelled sample_faulty" "fetched sample_faulty \<noteq> None"
    "\<forall>u. deliver sample_faulty u \<noteq> Some CancelledError"
    by (simp_all add: sample_faulty_def sample_input_def)
  have ok: "fst (cycle_body sample_builtins sample_input sample_plugin) = None"
    by (simp add: sample_cycle)
  have ok2: "\<not> sleep_cancelled sample_input"
    by (simp add: sample_input_def)
  have c: "sleep_cancelled sample_cancelled" "monitored_uids sample_plugin \<noteq> []"
    "fst (cycle_body sample_builtins sample_cancelled sample_plugin) = None"
    by (simp_all add: sample_cancelled_def sample_plugin_def sample_defs sample_status_map2)
  have left: "snd (monitor_iteration sample_builtins sample_cancelled (sample_plugin, 0)) = None"
    using c by (simp add: monitor_iteration_unfold)
  have all: "\<forall>j\<in>set [sample_faulty, sample_faulty, sample_faulty, sample_faulty, sample_faulty].
      \<not> sleep_cancelled j \<and> fetched j \<noteq> None \<and> (\<forall>u. deliver j u \<noteq> Some CancelledError)"
    using nf by simp
  note a = failure_containment [of sample_plugin sample_builtins sample_faulty 4
      "[sample_faulty, sample_faulty, sample_faulty, sample_faulty, sample_faulty]"]
  note b = failure_containment [of sample_plugin sample_builtins sample_input 5 "[]"]
  note d = failure_containment [of sample_plugin sample_builtins sample_cancelled 0 "[]"]
  have r1: "monitor_iteration sample_builtins sample_faulty (sample_plugin, 4) =
     ([Sleep 300], Some (sample_plugin, 5))"
    using a m f nf by (simp add: sample_faulty_cycle prod_eq_iff)
  have r2: "map_option snd (snd (monitor_iteration sample_builtins sample_input (sample_plugin, 5))) = Some 0"
    using b m ok ok2 by auto
  have c2: "sleep_cancelled sample_cancelled"
    using d left c(1) by simp
  note run = sample_faulty_run
  show ?thesis
    by (intro conjI) (fact m(1) f nf r1 ok ok2 r2 left c2 run)+
qed

section \<open>Properties of the rate-limited signal\<close>

lemma fetch_flag:
  "fst (fetch b uids r fl) = signal_after b fl [(uids, r)]"
proof (cases "list_all (int_ok b) uids")
  case False
  then show ?thesis by (simp add: fetch_def)
next
  case ok: True
  show ?thesis
  proof (cases "upstream_error r")
    case True
    with ok show ?thesis by (cases r) (auto simp: fetch_error)
  next
    case False
    then obtain st body where r: "r = Response st (Some (JObj body))"
      by (cases r rule: upstream_error.cases) auto
    with False have c: "st = 200" "py_eq_int (dict_get body ''code'') 0" by auto
    show ?thesis
      using ok False unfolding r c(1)
      by (simp add: fetch_def c(2) split: json.splits option.splits)
  qed
qed

lemma get_live_status_batch_flag:
  "fst (get_live_status_batch b uids r fl) = signal_after b fl [(uids, r)]"
  using fetch_flag [of b uids r fl]
  by (cases "fetch b uids r fl") (simp add: get_live_status_batch_def)

lemma get_live_status_fst:
  "fst (get_live_status b uid r fl) = fst (get_live_status_batch b [uid] r fl)"
  by (cases "get_live_status_batch b [uid] r fl") (simp add: get_live_status_def split: option.splits)

lemma get_live_status_flag:
  "fst (get_live_status b uid r fl) = signal_after b fl [([uid], r)]"
  by (simp only: get_live_status_fst get_live_status_batch_flag)

lemma signal_after_append:
  "signal_after b fl (xs @ ys) = signal_after b (signal_after b fl xs) ys"
  by (induction xs arbitrary: fl) auto

lemma command_lookups_signal:
  "command_lookups b ls fl = signal_after b fl (map (\<lambda>(uid, r). ([uid], r)) ls)"
proof (induction ls arbitrary: fl)
  case Nil
  then show ?case by (simp add: command_lookups_def)
next
  case (Cons a ls)
  obtain uid r where a: "a = (uid, r)" by (cases a)
  have "command_lookups b (a # ls) fl = command_lookups b ls (fst (get_live_status b uid r fl))"
    by (simp add: command_lookups_def a)
  also have "\<dots> = signal_after b (signal_after b fl [([uid], r)]) (map (\<lambda>(uid, r). ([uid], r)) ls)"
    by (simp only: Cons.IH get_live_status_flag)
  finally show ?case
    by (simp add: a)
qed

text \<open>
  Claim C5, amended. The rate-limited flag is written by every status request, the
  fetch of a pass and the lookups of commands alike: HTTP 429 sets it, HTTP 200
  with application code 0 clears it, any other outcome leaves it. In a pass that
  completes, the interval update, which runs after the sleep, sees the flag as the
  fetch of the pass and the command lookups made since, in order, left it from its
  value before the pass; nothing resets it per pass.
\<close>

theorem rate_limit_signal_persists:
  assumes "monitored_uids p \<noteq> []" "fetched i = Some r" "fst (cycle_body b i p) = None"
      and "\<not> sleep_cancelled i"
  shows "\<exists>p'. snd (monitor_iteration b i (p, n)) = Some (p', 0) \<and>
           last_rate_limited p' =
             signal_after b (last_rate_limited p)
               ((eligible_uids (now i) p (monitored_uids p), r) #
                map (\<lambda>(uid, r). ([uid], r)) (lookups i)) \<and>
           current_interval p' =
             adjust_interval (check_interval p)
               (signal_after b (last_rate_limited p)
                  ((eligible_uids (now i) p (monitored_uids p), r) #
                   map (\<lambda>(uid, r). ([uid], r)) (lookups i)))
               (current_interval p)"
proof -
  have fl: "command_lookups b (lookups i) (last_rate_limited (snd (snd (cycle_body b i p)))) =
      signal_after b (last_rate_limited p)
        ((eligible_uids (now i) p (monitored_uids p), r) # map (\<lambda>(uid, r). ([uid], r)) (lookups i))"
    unfolding command_lookups_signal cycle_body_flag [OF assms(2)] get_live_status_batch_flag
    by simp
  from assms(1,3,4) show ?thesis
    by (simp add: monitor_iteration_unfold fl)
qed

lemma sample_cycle_429:
  "cycle_body sample_builtins sample_429 sample_plugin =
     (None, [], sample_limited\<lparr>current_interval := 60\<rparr>)"
  by (simp add: sample_defs sample_429_def sample_limited_def get_live_status_batch_def fetch_def
        sample_builtins_def fun_upd_twist)

lemma sample_cycle_503:
  "cycle_body sample_builtins sample_503 sample_limited =
     (None, [], sample_limited2\<lparr>current_interval := 120\<rparr>)"
  by (simp add: sample_defs sample_503_def sample_limited_def sample_limited2_def
        get_live_status_batch_def fetch_def sample_builtins_def fun_upd_twist)

lemma sample_iteration_429:
  "monitor_iteration sample_builtins sample_429 (sample_plugin, 0) = ([Sleep 60], Some (sample_limited, 0))"
proof -
  have "monitored_uids sample_plugin \<noteq> []" "\<not> sleep_cancelled sample_429"
       "check_interval sample_plugin = 60" "current_interval sample_plugin = 60"
       "lookups sample_429 = []"
    by (simp_all add: sample_plugin_def sample_429_def sample_input_def)
  then show ?thesis
    by (simp add: monitor_iteration_unfold sample_cycle_429 command_lookups_Nil)
       (simp add: sample_limited_def sample_plugin_def adjust_interval_def)
qed

lemma sample_iteration_503:
  "monitor_iteration sample_builtins sample_503 (sample_limited, 0) = ([Sleep 120], Some (sample_limited2, 0))"
proof -
  have "monitored_uids sample_limited \<noteq> []" "\<not> sleep_cancelled sample_503"
       "check_interval sample_limited = 60" "current_interval sample_limited = 120"
       "lookups sample_503 = []"
    by (simp_all add: sample_limited_def sample_plugin_def sample_503_def sample_input_def)
  then show ?thesis
    by (simp add: monitor_iteration_unfold sample_cycle_503 command_lookups_Nil)
       (simp add: sample_limited2_def sample_limited_def sample_plugin_def adjust_interval_def)
qed

text \<open>
  Claim C5 as stated fails: after a pass whose fetch got HTTP 429, a pass whose
  fetch gets HTTP 503 still sees the signal as true and doubles the interval again.
\<close>

theorem rate_limit_signal_counterexample:
  "snd (monitor_iteration sample_builtins sample_429 (sample_plugin, 0)) = Some (sample_limited, 0) \<and>
   fetched sample_503 = Some (Response 503 None) \<and>
   snd (monitor_iteration sample_builtins sample_503 (sample_limited, 0)) = Some (sample_limited2, 0) \<and>
   last_rate_limited sample_limited2 \<and>
   current_interval sample_limited2 =
     adjust_interval (check_interval sample_limited) True (current_interval sample_limited) \<and>
   current_interval sample_limited2 \<noteq>
     adjust_interval (check_interval sample_limited) False (current_interval sample_limited)"
proof -
  have "fetched sample_503 = Some (Response 503 None)"
    by (simp add: sample_503_def)
  moreover have "last_rate_limited sample_limited2"
    "current_interval sample_limited2 =
       adjust_interval (check_interval sample_limited) True (current_interval sample_limited)"
    "current_interval sample_limited2 \<noteq>
       adjust_interval (check_interval sample_limited) False (current_interval sample_limited)"
    by (simp_all add: sample_limited2_def sample_limited_def sample_plugin_def adjust_interval_def
          three_quarters_def)
  ultimately show ?thesis
    by (simp add: sample_iteration_429 sample_iteration_503)
qed

lemma sample_cycle_429_lookup:
  "cycle_body sample_builtins sample_429_lookup sample_plugin =
     (None, [], sample_limited\<lparr>current_interval := 60\<rparr>)"
  by (simp add: sample_defs sample_429_def sample_429_lookup_def sample_limited_def
        get_live_status_batch_def fetch_def sample_builtins_def fun_upd_twist)

lemma sample_iteration_429_lookup:
  "monitor_iteration sample_builtins sample_429_lookup (sample_plugin, 0) =
     ([Sleep 60], Some (sample_cleared, 0))"
proof -
  have "monitored_uids sample_plugin \<noteq> []" "\<not> sleep_cancelled sample_429_lookup"
       "check_interval sample_plugin = 60" "current_interval sample_plugin = 60"
       "lookups sample_429_lookup = [(''7'', Response 200 (Some sample_body))]"
    by (simp_all add: sample_plugin_def sample_429_lookup_def sample_429_def sample_input_def)
  moreover have "command_lookups sample_builtins [(''7'', Response 200 (Some sample_body))] True = False"
    by (simp add: command_lookups_def get_live_status_flag sample_builtins_def sample_body_def
          dict_get_def)
  ultimately show ?thesis
    by (simp add: monitor_iteration_unfold sample_cycle_429_lookup)
       (simp add: sample_cleared_def sample_limited_def sample_plugin_def adjust_interval_def
          three_quarters_def)
qed

theorem rate_limit_signal_persists_witness:
  "monitored_uids sample_limited \<noteq> [] \<and>
   fetched sample_503 = Some (Response 503 None) \<and>
   fst (cycle_body sample_builtins sample_503 sample_limited) = None \<and>
   \<not> sleep_cancelled sample_503 \<and>
   last_rate_limited sample_limited \<and>
   snd (monitor_iteration sample_builtins sample_503 (sample_limited, 0)) = Some (sample_limited2, 0) \<and>
   last_rate_limited sample_limited2 \<and>
   current_interval sample_limited2 =
     adjust_interval (check_interval sample_limited) True (current_interval sample_limited) \<and>
   monitored_uids sample_plugin \<noteq> [] \<and>
   fetched sample_429_lookup = Some (Response 429 None) \<and>
   lookups sample_429_lookup = [(''7'', Response 200 (Some sample_body))] \<and>
   fst (cycle_body sample_builtins sample_429_lookup sample_plugin) = None \<and>
   \<not> sleep_cancelled sample_429_lookup \<and>
   snd (monitor_iteration sample_builtins sample_429_lookup (sample_plugin, 0)) = Some (sample_cleared, 0) \<and>
   \<not> last_rate_limited sample_cleared \<and>
   current_interval sample_cleared =
     adjust_interval (check_interval sample_plugin) False (current_interval sample_plugin)"
proof -
  have h1: "monitored_uids sample_limited \<noteq> []"
    by (simp add: sample_limited_def sample_plugin_def)
  have h2: "fetched sample_503 = Some (Response 503 None)"
    by (simp add: sample_503_def)
  have h3: "fst (cycle_body sample_builtins sample_503 sample_limited) = None"
    by (simp add: sample_cycle_503)
  have h4: "\<not> sleep_cancelled sample_503"
    by (simp add: sample_503_def sample_input_def)
  have f: "last_rate_limited sample_limited"
    by (simp add: sample_limited_def)
  have l: "lookups sample_503 = []"
    by (simp add: sample_503_def sample_input_def)
  have it: "snd (monitor_iteration sample_builtins sample_503 (sample_limited, 0)) = Some (sample_limited2, 0)"
    by (simp add: sample_iteration_503)
  have s: "signal_after sample_builtins True
      [(eligible_uids (now sample_503) sample_limited (monitored_uids sample_limited), Response 503 None)]"
    by simp
  from rate_limit_signal_persists [OF h1 h2 h3 h4, of 0] it f l s
  have c: "last_rate_limited sample_limited2 \<and>
     current_interval sample_limited2 =
       adjust_interval (check_interval sample_limited) True (current_interval sample_limited)"
    by simp
  have g1: "monitored_uids sample_plugin \<noteq> []"
    by (simp add: sample_plugin_def)
  have g2: "fetched sample_429_lookup = Some (Response 429 None)"
    by (simp add: sample_429_lookup_def sample_429_def)
  have g3: "fst (cycle_body sample_builtins sample_429_lookup sample_plugin) = None"
    by (simp add: sample_cycle_429_lookup)
  have g4: "\<not> sleep_cancelled sample_429_lookup"
    by (simp add: sample_429_lookup_def sample_429_def sample_input_def)
  have g5: "lookups sample_429_lookup = [(''7'', Response 200 (Some sample_body))]"
    by (simp add: sample_429_lookup_def)
  have it2: "snd (monitor_iteration sample_builtins sample_429_lookup (sample_plugin, 0)) = Some (sample_cleared, 0)"
    by (simp add: sample_iteration_429_lookup)
  have s2: "\<not> signal_after sample_builtins (last_rate_limited sample_plugin)
      [(eligible_uids (now sample_429_lookup) sample_plugin (monitored_uids sample_plugin), Response 429 None),
       ([''7''], Response 200 (Some sample_body))]"
    by (simp add: sample_builtins_def sample_body_def dict_get_def)
  from rate_limit_signal_persists [OF g1 g2 g3 g4, of 0] it2 g5 s2
  have d: "\<not> last_rate_limited sample_cleared \<and>
     current_interval sample_cleared =
       adjust_interval (check_interval sample_plugin) False (current_interval sample_plugin)"
    by simp
  note c1 = conjunct1 [OF c] and c2 = conjunct2 [OF c]
   and d1 = conjunct1 [OF d] and d2 = conjunct2 [OF d]
  show ?thesis
    by (intro conjI) (fact h1 h2 h3 h4 f it c1 c2 g1 g2 g3 g4 g5 it2 d1 d2)+
qed

section \<open>Properties of the Monitor Registry\<close>

lemma sample_split: "py_split ''add 7'' = [''add'', ''7'']"
  by (simp add: py_split_def is_space_def)

lemma get_live_status_has_live_status:
  "\<exists>v. map_of (snd (get_live_status b uid r fl)) ''live_status'' = Some v"
proof -
  have "snd (get_live_status_batch b [uid] r fl) uid = Some zero_status \<or>
        (\<exists>d. snd (get_live_status_batch b [uid] r fl) uid = Some (status_of d))"
    using fetch_apply [of b "[uid]" r fl uid]
    by (cases "fetch b [uid] r fl") (auto simp: get_live_status_batch_def fill_defaults_apply)
  then have "snd (get_live_status b uid r fl) = zero_status \<or>
             (\<exists>d. snd (get_live_status b uid r fl) = status_of d)"
    by (cases "get_live_status_batch b [uid] r fl") (auto simp: get_live_status_def)
  then show ?thesis
    by (auto simp: zero_status_def status_of_def)
qed

lemma add_monitor_unfold:
  assumes "length (py_split (message_str ev)) \<ge> 2" "py_split (message_str ev) ! 1 = uid"
  shows "add_monitor b ev t r p =
     (if \<not> isdigit uid then (NotDigits, p)
      else if int (length (monitored_uids p)) \<ge> max_monitors p then (LimitReached, p)
      else if \<not> truthy (dict_get (snd (get_live_status b uid r (last_rate_limited p))) ''uname'')
        then (NotFound, p\<lparr>last_rate_limited := fst (get_live_status b uid r (last_rate_limited p))\<rparr>)
      else (Added,
            p\<lparr>last_rate_limited := fst (get_live_status b uid r (last_rate_limited p)),
              monitored_uids :=
                AList.update uid (new_entry ev t (snd (get_live_status b uid r (last_rate_limited p))))
                  (monitored_uids p),
              live_status_cache :=
                (live_status_cache p)(uid \<mapsto>
                   the (map_of (snd (get_live_status b uid r (last_rate_limited p))) ''live_status''))\<rparr>))"
proof -
  obtain fl st where g: "get_live_status b uid r (last_rate_limited p) = (fl, st)"
    by (cases "get_live_status b uid r (last_rate_limited p)")
  from get_live_status_has_live_status [of b uid r "last_rate_limited p"] g
  obtain v where v: "map_of st ''live_status'' = Some v" by auto
  from assms have l: "\<not> length (py_split (message_str ev)) < 2" by simp
  show ?thesis
    using l assms(2) g v by (simp add: add_monitor_def Let_def new_entry_def)
qed

text \<open>
  Claim C6, amended. \<open>add_monitor\<close> for an identifier that is already monitored
  leaves the keys of the registry, their order and their number as they are. It
  succeeds exactly when the identifier is numeric, the registry is below its cap
  and the lookup gives a name; then the entry of the identifier is replaced by a
  new one (sender, time and origin of this command) and the other entries are
  unchanged. When it does not succeed the registry is unchanged.
\<close>

theorem readd_replaces_entry:
  assumes "uid \<in> fst ` set (monitored_uids p)"
      and "length (py_split (message_str ev)) \<ge> 2" "py_split (message_str ev) ! 1 = uid"
  shows "map fst (monitored_uids (snd (add_monitor b ev t r p))) = map fst (monitored_uids p) \<and>
         (fst (add_monitor b ev t r p) = Added \<longleftrightarrow>
            isdigit uid \<and> int (length (monitored_uids p)) < max_monitors p \<and>
            truthy (dict_get (snd (get_live_status b uid r (last_rate_limited p))) ''uname'')) \<and>
         (fst (add_monitor b ev t r p) = Added \<longrightarrow>
            map_of (monitored_uids (snd (add_monitor b ev t r p))) uid =
              Some \<lparr>uname = dict_get_default (snd (get_live_status b uid r (last_rate_limited p))) ''uname'' (JStr ''''),
                    room_id = dict_get_default (snd (get_live_status b uid r (last_rate_limited p))) ''room_id'' (JInt 0),
                    added_by = sender_name ev,
                    added_time = t,
                    unified_msg_origin = Some (event_origin ev)\<rparr> \<and>
            (\<forall>u. u \<noteq> uid \<longrightarrow>
               map_of (monitored_uids (snd (add_monitor b ev t r p))) u = map_of (monitored_uids p) u)) \<and>
         (fst (add_monitor b ev t r p) \<noteq> Added \<longrightarrow>
            monitored_uids (snd (add_monitor b ev t r p)) = monitored_uids p)"
proof -
  note u = add_monitor_unfold [OF assms(2,3), of b t r p]
  from assms(1) have k: "uid \<in> set (map fst (monitored_uids p))" by simp
  have keys: "map fst (AList.update uid e (monitored_uids p)) = map fst (monitored_uids p)" for e
    using k by (simp add: update_keys)
  show ?thesis
    unfolding u by (auto simp: keys update_conv' new_entry_def)
qed

lemma sample_lookup:
  "get_live_status sample_builtins ''7'' (Response 200 (Some sample_body)) False =
     (False, [(''live_status'', JInt 1), (''room_id'', JInt 999), (''title'', JStr ''t''), (''uname'', JStr ''Alice'')])"
  by (simp add: get_live_status_def sample_status_map)

lemma sample_add:
  "add_monitor sample_builtins sample_event 500 (Response 200 (Some sample_body)) sample_plugin =
     (Added,
      sample_plugin
        \<lparr>monitored_uids :=
           [(''7'', \<lparr>uname = JStr ''Alice'', room_id = JInt 999, added_by = ''dave'', added_time = 500,
                     unified_msg_origin = Some ''group:2''\<rparr>),
            (''8'', \<lparr>uname = JStr ''Carol'', room_id = JInt 5, added_by = ''bob'', added_time = 11,
                     unified_msg_origin = Some ''group:1''\<rparr>)],
         live_status_cache := [''7'' \<mapsto> JInt 1]\<rparr>)"
proof -
  have a: "length (py_split (message_str sample_event)) \<ge> 2"
          "py_split (message_str sample_event) ! 1 = ''7''"
    by (simp_all add: sample_event_def sample_split)
  have f: "last_rate_limited sample_plugin = False" by (simp add: sample_plugin_def)
  show ?thesis
    unfolding add_monitor_unfold [OF a] f sample_lookup
    by (simp add: isdigit_def sample_plugin_def sample_event_def new_entry_def dict_get_def
          dict_get_default_def)
qed

text \<open>
  Claim C6 as stated fails: adding the monitored identifier 7 again at time 500
  succeeds and overwrites \<open>added_time = 10\<close> with 500.
\<close>

theorem readd_counterexample:
  "''7'' \<in> fst ` set (monitored_uids sample_plugin) \<and>
   py_split (message_str sample_event) = [''add'', ''7''] \<and>
   fst (add_monitor sample_builtins sample_event 500 (Response 200 (Some sample_body)) sample_plugin) = Added \<and>
   map_option added_time (map_of (monitored_uids sample_plugin) ''7'') = Some 10 \<and>
   map_option added_time
     (map_of (monitored_uids
        (snd (add_monitor sample_builtins sample_event 500 (Response 200 (Some sample_body)) sample_plugin)))
        ''7'') = Some 500 \<and>
   monitored_uids
     (snd (add_monitor sample_builtins sample_event 500 (Response 200 (Some sample_body)) sample_plugin))
     \<noteq> monitored_uids sample_plugin"
  unfolding sample_add by (simp add: sample_plugin_def sample_event_def sample_split)

theorem readd_replaces_entry_witness:
  "''7'' \<in> fst ` set (monitored_uids sample_plugin) \<and>
   length (py_split (message_str sample_event)) \<ge> 2 \<and>
   py_split (message_str sample_event) ! 1 = ''7'' \<and>
   fst (add_monitor sample_builtins sample_event 500 (Response 200 (Some sample_body)) sample_plugin) = Added \<and>
   map fst (monitored_uids
     (snd (add_monitor sample_builtins sample_event 500 (Response 200 (Some sample_body)) sample_plugin)))
     = [''7'', ''8''] \<and>
   map_of (monitored_uids
     (snd (add_monitor sample_builtins sample_event 500 (Response 200 (Some sample_body)) sample_plugin)))
     ''7'' =
     Some \<lparr>uname = JStr ''Alice'', room_id = JInt 999, added_by = ''dave'', added_time = 500,
           unified_msg_origin = Some ''group:2''\<rparr>"
proof -
  have h1: "''7'' \<in> fst ` set (monitored_uids sample_plugin)"
    by (simp add: sample_plugin_def)
  have h2: "length (py_split (message_str sample_event)) \<ge> 2"
    by (simp add: sample_event_def sample_split)
  have h3: "py_split (message_str sample_event) ! 1 = ''7''"
    by (simp add: sample_event_def sample_split)
  have r: "fst (add_monitor sample_builtins sample_event 500 (Response 200 (Some sample_body)) sample_plugin) = Added"
    by (simp add: sample_add)
  have f: "last_rate_limited sample_plugin = False" "sender_name sample_event = ''dave''"
    "event_origin sample_event = ''group:2''"
    "map fst (monitored_uids sample_plugin) = [''7'', ''8'']"
    by (simp_all add: sample_plugin_def sample_event_def)
  note t = readd_replaces_entry [OF h1 h2 h3, of sample_builtins 500 "Response 200 (Some sample_body)"]
  from t f(4) have k: "map fst (monitored_uids
     (snd (add_monitor sample_builtins sample_event 500 (Response 200 (Some sample_body)) sample_plugin)))
     = [''7'', ''8'']"
    by simp
  from t r have e: "map_of (monitored_uids
     (snd (add_monitor sample_builtins sample_event 500 (Response 200 (Some sample_body)) sample_plugin)))
     ''7'' =
     Some \<lparr>uname = JStr ''Alice'', room_id = JInt 999, added_by = ''dave'', added_time = 500,
           unified_msg_origin = Some ''group:2''\<rparr>"
    unfolding f sample_lookup by (simp add: dict_get_default_def)
  show ?thesis
    by (intro conjI) (fact h1 h2 h3 r k e)+
qed

section \<open>Sample runs of the fetcher\<close>

text \<open>
  A list-shaped payload whose record carries the identifier as a number, and a
  dict-shaped payload whose first record is not a dict.
\<close>

lemma str_int_samples: "str_int 7 = ''7''" "str_int 1203 = ''1203''" "str_int (- 45) = ''-45''"
  by (simp_all add: str_int_def digits_of.simps)

lemma list_shaped_reply:
  "snd (get_live_status_batch sample_builtins [''7'', ''8'']
          (Response 200 (Some (JObj [(''code'', JInt 0),
             (''data'', JArr [JObj [(''uid'', JInt 7), (''live_status'', JInt 1), (''uname'', JStr ''Alice'')]])])))
          True) =
     [''7'' \<mapsto> [(''live_status'', JInt 1), (''room_id'', JInt 0), (''title'', JStr []), (''uname'', JStr ''Alice'')],
      ''8'' \<mapsto> zero_status]"
  by (simp add: get_live_status_batch_def fetch_def sample_builtins_def dict_get_def
        dict_get_default_def status_of_def py_str_def py_or_def str_int_def digits_of.simps)

lemma broken_record_ends_loop:
  "snd (get_live_status_batch sample_builtins [''7'', ''8'']
          (Response 200 (Some (JObj [(''code'', JInt 0),
             (''data'', JObj [(''7'', JStr ''x''), (''8'', JObj [(''uname'', JStr ''Carol'')])])])))
          True) =
     [''7'' \<mapsto> zero_status, ''8'' \<mapsto> zero_status]"
  by (simp add: get_live_status_batch_def fetch_def sample_builtins_def dict_get_def
        dict_get_default_def status_of_def)

end
